theory Spec2Isabelle
  imports Complex_Main
begin

section \<open>The persistent store\<close>

text \<open>
  The backend keeps two MongoDB collections, \<open>products\<close> and \<open>transactions\<close>. A
  collection is modelled as the list of its documents in insertion order, a document
  as a record that carries its own \<open>_id\<close>. An object id is written as the string
  \<open>str\<close> gives for it: the lower-case hexadecimal digits of its bytes. A point in time
  (\<open>datetime.utcnow()\<close>) is a natural number; every clock read of one operation is
  taken at the instant \<open>now\<close> that the operation receives.
\<close>

type_synonym oid = string
type_synonym time = nat

datatype exn = InvalidId | DuplicateKeyError | AttributeError

text \<open>
  \<open>bson.ObjectId(s)\<close> for a string \<open>s\<close>: a string of length 24 is handed to
  \<open>bytes.fromhex\<close>, every other string raises \<open>InvalidId\<close> (\<open>None\<close> here).
  \<open>bytes.fromhex\<close> reads two hexadecimal digits per byte, in either case, and skips
  ASCII whitespace in front of a pair; anything else raises. The id is written as its
  \<open>str\<close>: the lower-case digits of its bytes. So 24 digits denote a 12-byte id, and 24
  characters with blanks among the pairs denote a shorter one, which the library
  accepts as well.
\<close>

definition hex_lower :: "char \<Rightarrow> char" where
  "hex_lower c =
     (if c = CHR ''A'' then CHR ''a'' else if c = CHR ''B'' then CHR ''b''
      else if c = CHR ''C'' then CHR ''c'' else if c = CHR ''D'' then CHR ''d''
      else if c = CHR ''E'' then CHR ''e'' else if c = CHR ''F'' then CHR ''f'' else c)"

definition is_hex :: "char \<Rightarrow> bool" where
  "is_hex c = (c \<in> set ''0123456789abcdefABCDEF'')"

definition is_space :: "char \<Rightarrow> bool" where
  "is_space c = (c \<in> set [CHR '' '', CHR 0x09, CHR 0x0A, CHR 0x0B, CHR 0x0C, CHR 0x0D])"

fun fromhex :: "string \<Rightarrow> string option" where
  "fromhex [] = Some []"
| "fromhex [c] = (if is_space c then Some [] else None)"
| "fromhex (c # c' # cs) =
     (if is_space c then fromhex (c' # cs)
      else if is_hex c \<and> is_hex c'
      then map_option (\<lambda>bs. hex_lower c # hex_lower c' # bs) (fromhex cs)
      else None)"

definition ObjectId :: "string \<Rightarrow> oid option" where
  "ObjectId s = (if length s = 24 then fromhex s else None)"

text \<open>
  \<open>collection.update_one(filter, update)\<close>: the first document that matches the
  filter is replaced by its update; the count returned is \<open>modified_count\<close>, which
  is 1 only when a document matched and the update changed it.
\<close>

fun update_one :: "('d \<Rightarrow> bool) \<Rightarrow> ('d \<Rightarrow> 'd) \<Rightarrow> 'd list \<Rightarrow> nat \<times> 'd list" where
  "update_one flt upd [] = (0, [])"
| "update_one flt upd (d # ds) =
     (if flt d then ((if upd d = d then 0 else 1), upd d # ds)
      else (case update_one flt upd ds of (n, ds') \<Rightarrow> (n, d # ds')))"

text \<open>\<open>collection.find_one(filter)\<close>: the first matching document, or \<open>None\<close>.\<close>

definition find_one :: "('d \<Rightarrow> bool) \<Rightarrow> 'd list \<Rightarrow> 'd option" where
  "find_one flt ds = find flt ds"

section \<open>Product model (models/product.py)\<close>

record product =
  p_oid :: oid
  nombre :: "string option"
  descripcion :: string
  precio :: real
  talla :: string
  categoria :: "string option"
  imagen_url :: string
  user_id :: string
  username :: string
  estado :: string
  stock :: nat
  reserved_by :: "string option"
  transaction_id :: "string option"
  views :: nat
  p_created_at :: time
  p_updated_at :: time

definition P_AVAILABLE :: string where "P_AVAILABLE = ''disponible''"
definition P_RESERVED :: string where "P_RESERVED = ''reservado''"
definition P_SOLD :: string where "P_SOLD = ''vendido''"
definition P_INACTIVE :: string where "P_INACTIVE = ''inactivo''"

section \<open>Transaction model (models/transaction.py)\<close>

record snapshot =
  s_nombre :: "string option"
  s_descripcion :: string
  s_precio :: real
  s_categoria :: "string option"
  s_talla :: string
  s_imagen_url :: string

text \<open>A timeline entry; the entry written at creation has no \<open>by_user_id\<close> key.\<close>

record event =
  ev_status :: string
  timestamp :: time
  message :: string
  by_user_id :: "string option"

record transaction =
  t_oid :: oid
  transaction_code :: string
  product_id :: string
  buyer_id :: string
  seller_id :: string
  product_snapshot :: snapshot
  status :: string
  timeline :: "event list"
  seller_confirmed :: bool
  buyer_paid :: bool
  t_notes :: string
  payment_method :: string
  created_at :: time
  updated_at :: time
  expires_at :: "time option"
  completed_at :: "time option"

definition PENDING :: string where "PENDING = ''pendiente''"
definition CONFIRMED :: string where "CONFIRMED = ''confirmada''"
definition PAYMENT_CONFIRMED :: string where "PAYMENT_CONFIRMED = ''pago_confirmado''"
definition COMPLETED :: string where "COMPLETED = ''completada''"
definition CANCELLED :: string where "CANCELLED = ''cancelada''"
definition DISPUTED :: string where "DISPUTED = ''en_disputa''"

record db =
  products :: "product list"
  transactions :: "transaction list"

subsection \<open>Product operations\<close>

text \<open>The fields of the request body that \<open>Product.create\<close> reads with \<open>data.get\<close>.\<close>

record product_data =
  d_nombre :: "string option"
  d_descripcion :: "string option"
  d_precio :: "real option"
  d_talla :: "string option"
  d_categoria :: "string option"
  d_imagen_url :: "string option"
  d_username :: "string option"

definition get_default :: "'a option \<Rightarrow> 'a \<Rightarrow> 'a" where
  "get_default v dflt = (case v of None \<Rightarrow> dflt | Some x \<Rightarrow> x)"

text \<open>
  \<open>Product.create\<close>. The store generates the new \<open>_id\<close>; it is the parameter
  \<open>new_oid\<close>, and an id that is already taken is the store's \<open>DuplicateKeyError\<close>.
\<close>

definition Product_create :: "db \<Rightarrow> oid \<Rightarrow> product_data \<Rightarrow> string \<Rightarrow> time \<Rightarrow> exn + (string \<times> db)" where
  "Product_create d new_oid data uid now =
     (let product_doc = \<lparr>p_oid = new_oid,
            nombre = d_nombre data,
            descripcion = get_default (d_descripcion data) '''',
            precio = get_default (d_precio data) 0,
            talla = get_default (d_talla data) '''',
            categoria = d_categoria data,
            imagen_url = get_default (d_imagen_url data) '''',
            user_id = uid,
            username = get_default (d_username data) '''',
            estado = P_AVAILABLE,
            stock = 1,
            reserved_by = None,
            transaction_id = None,
            views = 0,
            p_created_at = now,
            p_updated_at = now\<rparr>
      in if list_ex (\<lambda>p. p_oid p = new_oid) (products d) then Inl DuplicateKeyError
         else Inr (new_oid, d\<lparr>products := products d @ [product_doc]\<rparr>))"

text \<open>\<open>Product.find_by_id\<close>: the bare \<open>except\<close> turns a malformed id into \<open>None\<close>.\<close>

definition Product_find_by_id :: "db \<Rightarrow> string \<Rightarrow> product option" where
  "Product_find_by_id d pid =
     (case ObjectId pid of
        None \<Rightarrow> None
      | Some i \<Rightarrow> find_one (\<lambda>p. p_oid p = i) (products d))"

text \<open>
  \<open>Product.reserve\<close>: the read and its two checks, then the conditional update whose
  filter repeats \<open>estado = disponible\<close>.
\<close>

definition Product_reserve :: "db \<Rightarrow> string \<Rightarrow> string \<Rightarrow> string \<Rightarrow> time \<Rightarrow> exn + (bool \<times> db)" where
  "Product_reserve d pid buyer tid now =
     (case Product_find_by_id d pid of
        None \<Rightarrow> Inr (False, d)
      | Some p \<Rightarrow>
          if estado p \<noteq> P_AVAILABLE then Inr (False, d)
          else if user_id p = buyer then Inr (False, d)
          else (case ObjectId pid of
                  None \<Rightarrow> Inl InvalidId
                | Some i \<Rightarrow>
                    (case update_one (\<lambda>q. p_oid q = i \<and> estado q = P_AVAILABLE)
                            (\<lambda>q. q\<lparr>estado := P_RESERVED, reserved_by := Some buyer,
                                   transaction_id := Some tid, p_updated_at := now\<rparr>)
                            (products d) of
                       (n, ps) \<Rightarrow> Inr (0 < n, d\<lparr>products := ps\<rparr>))))"

text \<open>
  \<open>Product.unreserve\<close> and \<open>Product.mark_as_sold\<close> build the object id outside any
  \<open>try\<close>: a malformed product id raises before the store is touched.
\<close>

definition Product_unreserve :: "db \<Rightarrow> string \<Rightarrow> time \<Rightarrow> exn + (bool \<times> db)" where
  "Product_unreserve d pid now =
     (case ObjectId pid of
        None \<Rightarrow> Inl InvalidId
      | Some i \<Rightarrow>
          (case update_one (\<lambda>q. p_oid q = i)
                  (\<lambda>q. q\<lparr>estado := P_AVAILABLE, reserved_by := None,
                         transaction_id := None, p_updated_at := now\<rparr>)
                  (products d) of
             (n, ps) \<Rightarrow> Inr (0 < n, d\<lparr>products := ps\<rparr>)))"

definition Product_mark_as_sold :: "db \<Rightarrow> string \<Rightarrow> string \<Rightarrow> time \<Rightarrow> exn + (bool \<times> db)" where
  "Product_mark_as_sold d pid tid now =
     (case ObjectId pid of
        None \<Rightarrow> Inl InvalidId
      | Some i \<Rightarrow>
          (case update_one (\<lambda>q. p_oid q = i)
                  (\<lambda>q. q\<lparr>estado := P_SOLD, stock := 0,
                         transaction_id := Some tid, p_updated_at := now\<rparr>)
                  (products d) of
             (n, ps) \<Rightarrow> Inr (0 < n, d\<lparr>products := ps\<rparr>)))"

subsection \<open>Transaction operations\<close>

text \<open>
  \<open>_generate_transaction_code\<close>. The alphabet is \<open>string.ascii_uppercase +
  string.digits\<close>. \<open>secrets.choice\<close> is a draw from the system's random source:
  the source is the sequence \<open>rnd\<close> of its successive draws, the \<open>i\<close>-th call picks the
  character at index \<open>rnd i mod 36\<close>, and one code consumes six draws from
  position \<open>i\<close> on.
\<close>

definition chars :: string where
  "chars = ''ABCDEFGHIJKLMNOPQRSTUVWXYZ0123456789''"

definition generate_transaction_code :: "(nat \<Rightarrow> nat) \<Rightarrow> nat \<Rightarrow> string" where
  "generate_transaction_code rnd i =
     ''TRD-'' @ map (\<lambda>j. chars ! (rnd (i + j) mod length chars)) [0..<6]"

definition code_taken :: "transaction list \<Rightarrow> string \<Rightarrow> bool" where
  "code_taken ts c = (find_one (\<lambda>t. transaction_code t = c) ts \<noteq> None)"

text \<open>
  The loop \<open>while self.collection.find_one({"transaction_code": code}): code =
  self._generate_transaction_code()\<close>. Nothing bounds it: a run that never draws a free
  code is the value \<open>None\<close>.
\<close>

partial_function (option) unique_code_loop ::
    "(nat \<Rightarrow> nat) \<Rightarrow> transaction list \<Rightarrow> nat \<Rightarrow> string \<Rightarrow> string option" where
  "unique_code_loop rnd ts i c =
     (if code_taken ts c then unique_code_loop rnd ts (i + 6) (generate_transaction_code rnd i)
      else Some c)"

text \<open>
  \<open>Transaction.create\<close>. The product document is \<open>product_data\<close>; the snapshot copies
  six of its fields. The store generates \<open>_id\<close> (the parameter \<open>new_oid\<close>) and rejects
  a duplicate \<open>_id\<close> or, through the unique index, a duplicate code.
\<close>

definition Transaction_create ::
    "db \<Rightarrow> oid \<Rightarrow> (nat \<Rightarrow> nat) \<Rightarrow> string \<Rightarrow> string \<Rightarrow> string \<Rightarrow> product \<Rightarrow> time
      \<Rightarrow> (exn + ((string \<times> string) \<times> db)) option" where
  "Transaction_create d new_oid rnd pid buyer seller pdata now =
     (case unique_code_loop rnd (transactions d) 6 (generate_transaction_code rnd 0) of
        None \<Rightarrow> None
      | Some code \<Rightarrow>
          (let transaction_doc = \<lparr>t_oid = new_oid,
                 transaction_code = code,
                 product_id = pid,
                 buyer_id = buyer,
                 seller_id = seller,
                 product_snapshot = \<lparr>s_nombre = nombre pdata,
                     s_descripcion = descripcion pdata,
                     s_precio = precio pdata,
                     s_categoria = categoria pdata,
                     s_talla = talla pdata,
                     s_imagen_url = imagen_url pdata\<rparr>,
                 status = PENDING,
                 timeline = [\<lparr>ev_status = PENDING, timestamp = now,
                     message = ''Reserva creada'', by_user_id = None\<rparr>],
                 seller_confirmed = False,
                 buyer_paid = False,
                 t_notes = [],
                 payment_method = [],
                 created_at = now,
                 updated_at = now,
                 expires_at = None,
                 completed_at = None\<rparr>
           in if list_ex (\<lambda>t. t_oid t = new_oid \<or> transaction_code t = code) (transactions d)
              then Some (Inl DuplicateKeyError)
              else Some (Inr ((new_oid, code),
                         d\<lparr>transactions := transactions d @ [transaction_doc]\<rparr>))))"

text \<open>\<open>Transaction.find_by_id\<close>, with the same bare \<open>except\<close>.\<close>

definition Transaction_find_by_id :: "db \<Rightarrow> string \<Rightarrow> transaction option" where
  "Transaction_find_by_id d tid =
     (case ObjectId tid of
        None \<Rightarrow> None
      | Some i \<Rightarrow> find_one (\<lambda>t. t_oid t = i) (transactions d))"

definition Transaction_find_by_code :: "db \<Rightarrow> string \<Rightarrow> transaction option" where
  "Transaction_find_by_code d code = find_one (\<lambda>t. transaction_code t = code) (transactions d)"

text \<open>
  The call \<open>self.collection.update_one({"_id": ObjectId(transaction_id)}, ...)\<close> that
  ends every mutation of a transaction; the result is \<open>modified_count > 0\<close>.
\<close>

definition update_by_id ::
    "db \<Rightarrow> string \<Rightarrow> (transaction \<Rightarrow> transaction) \<Rightarrow> exn + (bool \<times> db)" where
  "update_by_id d tid upd =
     (case ObjectId tid of
        None \<Rightarrow> Inl InvalidId
      | Some i \<Rightarrow>
          (case update_one (\<lambda>t. t_oid t = i) upd (transactions d) of
             (n, ts) \<Rightarrow> Inr (0 < n, d\<lparr>transactions := ts\<rparr>)))"

definition Transaction_update_status ::
    "db \<Rightarrow> string \<Rightarrow> string \<Rightarrow> string \<Rightarrow> string \<Rightarrow> time \<Rightarrow> exn + (bool \<times> db)" where
  "Transaction_update_status d tid new_status msg uid now =
     (case Transaction_find_by_id d tid of
        None \<Rightarrow> Inr (False, d)
      | Some tr \<Rightarrow>
          if uid \<notin> set [buyer_id tr, seller_id tr] then Inr (False, d)
          else update_by_id d tid
                 (\<lambda>t. t\<lparr>status := new_status,
                        updated_at := now,
                        completed_at := (if new_status = COMPLETED then Some now
                                         else completed_at t),
                        timeline := timeline t @
                          [\<lparr>ev_status = new_status, timestamp = now,
                            message = msg, by_user_id = Some uid\<rparr>]\<rparr>))"

definition Transaction_seller_confirm ::
    "db \<Rightarrow> string \<Rightarrow> string \<Rightarrow> string \<Rightarrow> time \<Rightarrow> exn + (bool \<times> db)" where
  "Transaction_seller_confirm d tid seller pm now =
     (case Transaction_find_by_id d tid of
        None \<Rightarrow> Inr (False, d)
      | Some tr \<Rightarrow>
          if seller_id tr \<noteq> seller then Inr (False, d)
          else update_by_id d tid
                 (\<lambda>t. t\<lparr>status := CONFIRMED,
                        seller_confirmed := True,
                        payment_method := pm,
                        updated_at := now,
                        timeline := timeline t @
                          [\<lparr>ev_status = CONFIRMED, timestamp = now,
                            message = ''Vendedor confirm'' @ [CHR 0xF3] @ '' la venta'',
                            by_user_id = Some seller\<rparr>]\<rparr>))"

definition Transaction_buyer_confirm_payment ::
    "db \<Rightarrow> string \<Rightarrow> string \<Rightarrow> time \<Rightarrow> exn + (bool \<times> db)" where
  "Transaction_buyer_confirm_payment d tid buyer now =
     (case Transaction_find_by_id d tid of
        None \<Rightarrow> Inr (False, d)
      | Some tr \<Rightarrow>
          if buyer_id tr \<noteq> buyer then Inr (False, d)
          else update_by_id d tid
                 (\<lambda>t. t\<lparr>status := PAYMENT_CONFIRMED,
                        buyer_paid := True,
                        updated_at := now,
                        timeline := timeline t @
                          [\<lparr>ev_status = PAYMENT_CONFIRMED, timestamp = now,
                            message = ''Comprador confirm'' @ [CHR 0xF3] @ '' el pago'',
                            by_user_id = Some buyer\<rparr>]\<rparr>))"

definition Transaction_complete_transaction ::
    "db \<Rightarrow> string \<Rightarrow> string \<Rightarrow> time \<Rightarrow> exn + (bool \<times> db)" where
  "Transaction_complete_transaction d tid uid now =
     Transaction_update_status d tid COMPLETED
       (''Transacci'' @ [CHR 0xF3] @ ''n completada exitosamente'') uid now"

definition Transaction_cancel_transaction ::
    "db \<Rightarrow> string \<Rightarrow> string \<Rightarrow> string \<Rightarrow> time \<Rightarrow> exn + (bool \<times> db)" where
  "Transaction_cancel_transaction d tid uid reason now =
     (let msg = (if reason \<noteq> []
                 then ''Transacci'' @ [CHR 0xF3] @ ''n cancelada. Motivo: '' @ reason
                 else ''Transacci'' @ [CHR 0xF3] @ ''n cancelada'')
      in Transaction_update_status d tid CANCELLED msg uid now)"

definition Transaction_add_note ::
    "db \<Rightarrow> string \<Rightarrow> string \<Rightarrow> string \<Rightarrow> time \<Rightarrow> exn + (bool \<times> db)" where
  "Transaction_add_note d tid uid note now =
     (case Transaction_find_by_id d tid of
        None \<Rightarrow> Inr (False, d)
      | Some tr \<Rightarrow>
          if uid \<notin> set [buyer_id tr, seller_id tr] then Inr (False, d)
          else update_by_id d tid
                 (\<lambda>t. t\<lparr>updated_at := now,
                        timeline := timeline t @
                          [\<lparr>ev_status = status tr, timestamp = now,
                            message = ''Nota agregada: '' @ note,
                            by_user_id = Some uid\<rparr>]\<rparr>))"

section \<open>Routes (routes/transactions.py)\<close>

text \<open>
  A route receives the authenticated caller, the path parameter and the request body,
  and returns the HTTP status with the store it leaves behind. The handler's
  \<open>except Exception\<close> is the status 500, with the store as it was when the exception
  was raised. \<open>models/user.py\<close> is not part of the sources: \<open>user_model.find_by_id\<close>
  is the parameter \<open>user_find_by_id\<close>, and reading a field of an absent user is
  Python's \<open>AttributeError\<close>.

  The body is what \<open>request.get_json()\<close> yields: a JSON object is the map of its
  fields (field values are strings here), and \<open>None\<close> stands for every body on which
  \<open>data = request.get_json()\<close> followed by \<open>data.get(...)\<close> raises, that is a body that
  is missing, is not JSON, or is JSON but not an object. \<open>seller_confirm\<close>,
  \<open>cancel_transaction\<close> and \<open>add_note\<close> read the body as their first statement inside
  the \<open>try\<close>, before any lookup. \<open>create_reservation\<close> is modelled from its field
  \<open>product_id\<close> on, the body being an object: \<open>None\<close> there is the missing field.
\<close>

type_synonym response = "nat \<times> db"
type_synonym json_body = "(string \<Rightarrow> string option) option"

definition create_reservation ::
    "(string \<Rightarrow> 'u option) \<Rightarrow> db \<Rightarrow> oid \<Rightarrow> (nat \<Rightarrow> nat) \<Rightarrow> string \<Rightarrow> string option \<Rightarrow> time
      \<Rightarrow> response option" where
  "create_reservation user_find_by_id d new_oid rnd current_user_id body_product_id now =
     (case body_product_id of
        None \<Rightarrow> Some (400, d)
      | Some pid \<Rightarrow>
          if pid = [] then Some (400, d)
          else
            (case Product_find_by_id d pid of
               None \<Rightarrow> Some (404, d)
             | Some p \<Rightarrow>
                 if estado p \<noteq> ''disponible'' then Some (400, d)
                 else if current_user_id = user_id p then Some (400, d)
                 else
                   (case Transaction_create d new_oid rnd pid current_user_id
                           (user_id p) p now of
                      None \<Rightarrow> None
                    | Some (Inl e) \<Rightarrow> Some (500, d)
                    | Some (Inr ((tid, code), d1)) \<Rightarrow>
                        (case Product_reserve d1 pid current_user_id tid now of
                           Inl e \<Rightarrow> Some (500, d1)
                         | Inr (reserved, d2) \<Rightarrow>
                             if \<not> reserved then Some (400, d2)
                             else
                               (case user_find_by_id (user_id p) of
                                  None \<Rightarrow> Some (500, d2)
                                | Some seller \<Rightarrow> Some (201, d2))))))"

definition get_transaction ::
    "(string \<Rightarrow> 'u option) \<Rightarrow> db \<Rightarrow> string \<Rightarrow> string \<Rightarrow> response" where
  "get_transaction user_find_by_id d current_user_id tid =
     (case Transaction_find_by_id d tid of
        None \<Rightarrow> (404, d)
      | Some tr \<Rightarrow>
          if current_user_id \<notin> set [buyer_id tr, seller_id tr] then (403, d)
          else
            (case user_find_by_id (buyer_id tr) of
               None \<Rightarrow> (500, d)
             | Some buyer \<Rightarrow>
                 (case user_find_by_id (seller_id tr) of
                    None \<Rightarrow> (500, d)
                  | Some seller \<Rightarrow> (200, d))))"

definition seller_confirm :: "db \<Rightarrow> string \<Rightarrow> string \<Rightarrow> json_body \<Rightarrow> time \<Rightarrow> response" where
  "seller_confirm d current_user_id tid body now =
     (case body of
        None \<Rightarrow> (500, d)
      | Some data \<Rightarrow>
          (let payment_method = get_default (data ''payment_method'') [] in
           case Transaction_find_by_id d tid of
             None \<Rightarrow> (404, d)
           | Some tr \<Rightarrow>
               if seller_id tr \<noteq> current_user_id then (403, d)
               else
                 (case Transaction_seller_confirm d tid current_user_id payment_method now of
                    Inl e \<Rightarrow> (500, d)
                  | Inr (success, d1) \<Rightarrow> if \<not> success then (400, d1) else (200, d1))))"

definition buyer_confirm_payment :: "db \<Rightarrow> string \<Rightarrow> string \<Rightarrow> time \<Rightarrow> response" where
  "buyer_confirm_payment d current_user_id tid now =
     (case Transaction_find_by_id d tid of
        None \<Rightarrow> (404, d)
      | Some tr \<Rightarrow>
          if buyer_id tr \<noteq> current_user_id then (403, d)
          else
            (case Transaction_buyer_confirm_payment d tid current_user_id now of
               Inl e \<Rightarrow> (500, d)
             | Inr (success, d1) \<Rightarrow> if \<not> success then (400, d1) else (200, d1)))"

definition complete_transaction :: "db \<Rightarrow> string \<Rightarrow> string \<Rightarrow> time \<Rightarrow> response" where
  "complete_transaction d current_user_id tid now =
     (case Transaction_find_by_id d tid of
        None \<Rightarrow> (404, d)
      | Some tr \<Rightarrow>
          if current_user_id \<notin> set [buyer_id tr, seller_id tr] then (403, d)
          else if \<not> seller_confirmed tr \<or> \<not> buyer_paid tr then (400, d)
          else
            (case Transaction_complete_transaction d tid current_user_id now of
               Inl e \<Rightarrow> (500, d)
             | Inr (success, d1) \<Rightarrow>
                 if success then
                   (case Product_mark_as_sold d1 (product_id tr) tid now of
                      Inl e \<Rightarrow> (500, d1)
                    | Inr (sold, d2) \<Rightarrow> (200, d2))
                 else (400, d1)))"

definition cancel_transaction :: "db \<Rightarrow> string \<Rightarrow> string \<Rightarrow> json_body \<Rightarrow> time \<Rightarrow> response" where
  "cancel_transaction d current_user_id tid body now =
     (case body of
        None \<Rightarrow> (500, d)
      | Some data \<Rightarrow>
          (let reason = get_default (data ''reason'') [] in
           case Transaction_find_by_id d tid of
             None \<Rightarrow> (404, d)
           | Some tr \<Rightarrow>
               if current_user_id \<notin> set [buyer_id tr, seller_id tr] then (403, d)
               else
                 (case Transaction_cancel_transaction d tid current_user_id reason now of
                    Inl e \<Rightarrow> (500, d)
                  | Inr (success, d1) \<Rightarrow>
                      if success then
                        (case Product_unreserve d1 (product_id tr) now of
                           Inl e \<Rightarrow> (500, d1)
                         | Inr (released, d2) \<Rightarrow> (200, d2))
                      else (400, d1))))"

definition add_note :: "db \<Rightarrow> string \<Rightarrow> string \<Rightarrow> json_body \<Rightarrow> time \<Rightarrow> response" where
  "add_note d current_user_id tid body now =
     (case body of
        None \<Rightarrow> (500, d)
      | Some data \<Rightarrow>
          (let note = get_default (data ''note'') [] in
           if note = [] then (400, d)
           else
             (case Transaction_add_note d tid current_user_id note now of
                Inl e \<Rightarrow> (500, d)
              | Inr (success, d1) \<Rightarrow> if success then (200, d1) else (400, d1))))"

section \<open>Sequences of calls\<close>

text \<open>
  The mutators of the transaction model as commands, so that a history of calls is a
  list. Each call is a request of its own: a call that fails or raises leaves the store
  as it found it and the next call runs.
\<close>

datatype ledger_op =
    UpdateStatus string string string string
  | SellerConfirm string string string
  | BuyerConfirmPayment string string
  | AddNote string string string

fun apply_op :: "db \<Rightarrow> ledger_op \<Rightarrow> time \<Rightarrow> exn + (bool \<times> db)" where
  "apply_op d (UpdateStatus tid st msg uid) now = Transaction_update_status d tid st msg uid now"
| "apply_op d (SellerConfirm tid uid pm) now = Transaction_seller_confirm d tid uid pm now"
| "apply_op d (BuyerConfirmPayment tid uid) now = Transaction_buyer_confirm_payment d tid uid now"
| "apply_op d (AddNote tid uid note) now = Transaction_add_note d tid uid note now"

fun target :: "ledger_op \<Rightarrow> string" where
  "target (UpdateStatus tid st msg uid) = tid"
| "target (SellerConfirm tid uid pm) = tid"
| "target (BuyerConfirmPayment tid uid) = tid"
| "target (AddNote tid uid note) = tid"

definition step :: "db \<Rightarrow> ledger_op \<times> time \<Rightarrow> db" where
  "step d c = (case apply_op d (fst c) (snd c) of Inl e \<Rightarrow> d | Inr (ok, d') \<Rightarrow> d')"

definition succeeds :: "db \<Rightarrow> ledger_op \<times> time \<Rightarrow> bool" where
  "succeeds d c = (case apply_op d (fst c) (snd c) of Inl e \<Rightarrow> False | Inr (ok, d') \<Rightarrow> ok)"

fun run_ops :: "db \<Rightarrow> (ledger_op \<times> time) list \<Rightarrow> db" where
  "run_ops d [] = d"
| "run_ops d (c # cs) = run_ops (step d c) cs"

text \<open>The number of calls of a history that succeed on the transaction with id \<open>i\<close>.\<close>

fun successes :: "db \<Rightarrow> oid \<Rightarrow> (ledger_op \<times> time) list \<Rightarrow> nat" where
  "successes d i [] = 0"
| "successes d i (c # cs) =
     (if succeeds d c \<and> ObjectId (target (fst c)) = Some i then 1 else 0)
     + successes (step d c) i cs"

text \<open>A call that asks for the status \<open>completada\<close> on the transaction with id \<open>i\<close>.\<close>

fun is_completion :: "oid \<Rightarrow> ledger_op \<Rightarrow> bool" where
  "is_completion i (UpdateStatus tid st msg uid) = (st = COMPLETED \<and> ObjectId tid = Some i)"
| "is_completion i (SellerConfirm tid uid pm) = False"
| "is_completion i (BuyerConfirmPayment tid uid) = False"
| "is_completion i (AddNote tid uid note) = False"

text \<open>
  The workflow operations of the product model as commands; a product is reachable
  when it is in the store after a history of them that starts with no product.
\<close>

datatype product_op =
    Create oid product_data string
  | Reserve string string string
  | Unreserve string
  | MarkAsSold string string

fun product_step :: "db \<Rightarrow> product_op \<times> time \<Rightarrow> db" where
  "product_step d (Create new_oid data uid, now) =
     (case Product_create d new_oid data uid now of Inl e \<Rightarrow> d | Inr (r, d') \<Rightarrow> d')"
| "product_step d (Reserve pid buyer tid, now) =
     (case Product_reserve d pid buyer tid now of Inl e \<Rightarrow> d | Inr (r, d') \<Rightarrow> d')"
| "product_step d (Unreserve pid, now) =
     (case Product_unreserve d pid now of Inl e \<Rightarrow> d | Inr (r, d') \<Rightarrow> d')"
| "product_step d (MarkAsSold pid tid, now) =
     (case Product_mark_as_sold d pid tid now of Inl e \<Rightarrow> d | Inr (r, d') \<Rightarrow> d')"

fun run_product_ops :: "db \<Rightarrow> (product_op \<times> time) list \<Rightarrow> db" where
  "run_product_ops d [] = d"
| "run_product_ops d (c # cs) = run_product_ops (product_step d c) cs"

definition no_products :: "transaction list \<Rightarrow> db" where
  "no_products ts = \<lparr>products = [], transactions = ts\<rparr>"

section \<open>A concrete store\<close>

text \<open>
  One listing of the seller \<open>alice\<close>, reserved by the buyer \<open>bob\<close> through one pending
  transaction; \<open>carol\<close> is a third user.
\<close>

definition ex_pid :: string where "ex_pid = ''aaaaaaaaaaaaaaaaaaaaaaaa''"
definition ex_tid :: string where "ex_tid = ''bbbbbbbbbbbbbbbbbbbbbbbb''"

definition ex_product :: product where
  "ex_product = \<lparr>p_oid = ex_pid, nombre = Some ''Campera'', descripcion = ''Campera de jean'',
     precio = 1500, talla = ''M'', categoria = Some ''Abrigos'', imagen_url = [],
     user_id = ''alice'', username = ''alice'', estado = P_RESERVED, stock = 1,
     reserved_by = Some ''bob'', transaction_id = Some ex_tid, views = 0,
     p_created_at = 1, p_updated_at = 2\<rparr>"

definition ex_transaction :: transaction where
  "ex_transaction = \<lparr>t_oid = ex_tid, transaction_code = ''TRD-A1B2C3'', product_id = ex_pid,
     buyer_id = ''bob'', seller_id = ''alice'',
     product_snapshot = \<lparr>s_nombre = Some ''Campera'', s_descripcion = ''Campera de jean'',
       s_precio = 1500, s_categoria = Some ''Abrigos'', s_talla = ''M'', s_imagen_url = []\<rparr>,
     status = PENDING,
     timeline = [\<lparr>ev_status = PENDING, timestamp = 2, message = ''Reserva creada'',
                  by_user_id = None\<rparr>],
     seller_confirmed = False, buyer_paid = False, t_notes = [], payment_method = [],
     created_at = 2, updated_at = 2, expires_at = None, completed_at = None\<rparr>"

definition ex_db :: "transaction \<Rightarrow> db" where
  "ex_db t = \<lparr>products = [ex_product], transactions = [t]\<rparr>"

text \<open>The same transaction after both confirmations, and after its completion at time 5.\<close>

definition ex_confirmed :: transaction where
  "ex_confirmed = ex_transaction\<lparr>status := PAYMENT_CONFIRMED, seller_confirmed := True,
     buyer_paid := True, payment_method := ''cash'', updated_at := 4\<rparr>"

definition ex_completed :: transaction where
  "ex_completed = ex_confirmed\<lparr>status := COMPLETED, updated_at := 5, completed_at := Some 5\<rparr>"

text \<open>A source of draws that always returns 0: every code it yields is \<open>TRD-AAAAAA\<close>.\<close>

definition zero_rnd :: "nat \<Rightarrow> nat" where
  "zero_rnd n = 0"

definition ex_user_find_by_id :: "string \<Rightarrow> string option" where
  "ex_user_find_by_id u = (if u \<in> set [''alice'', ''bob'', ''carol''] then Some u else None)"

text \<open>
  The shape the specification gives a transaction code: the prefix \<open>TRD-\<close> and six
  characters of the alphabet.
\<close>

definition well_formed_code :: "string \<Rightarrow> bool" where
  "well_formed_code c =
     (take 4 c = ''TRD-'' \<and> length c = 10 \<and> list_all (\<lambda>x. x \<in> set chars) (drop 4 c))"

text \<open>
  A free object id, two histories of calls on the transaction of the concrete store, a
  source of draws whose first code is \<open>TRD-AAAAAA\<close> and whose later codes are
  \<open>TRD-BBBBBB\<close>, and the transaction of the store under the code \<open>TRD-AAAAAA\<close>.
\<close>

definition ex_new :: string where "ex_new = ''cccccccccccccccccccccccc''"

definition ex_history :: "(ledger_op \<times> time) list" where
  "ex_history = [(SellerConfirm ex_tid ''alice'' ''cash'', 3),
                 (BuyerConfirmPayment ex_tid ''bob'', 4),
                 (SellerConfirm ex_tid ''carol'' ''card'', 5),
                 (UpdateStatus ex_tid COMPLETED ''ok'' ''bob'', 6)]"

definition ex_notes :: "(ledger_op \<times> time) list" where
  "ex_notes = [(AddNote ex_tid ''bob'' ''hola'', 6),
               (UpdateStatus ex_tid CANCELLED ''bye'' ''alice'', 7)]"

definition retry_rnd :: "nat \<Rightarrow> nat" where
  "retry_rnd n = (if n < 6 then 0 else 1)"

definition ex_taken :: transaction where
  "ex_taken = ex_transaction\<lparr>transaction_code := ''TRD-AAAAAA''\<rparr>"

text \<open>Request bodies: a reason for a cancellation, a payment method, a note.\<close>

definition ex_reason :: "string \<Rightarrow> string option" where
  "ex_reason = (\<lambda>k. if k = ''reason'' then Some ''changed mind'' else None)"

definition ex_payment :: "string \<Rightarrow> string option" where
  "ex_payment = (\<lambda>k. if k = ''payment_method'' then Some ''cash'' else None)"

definition ex_note :: "string \<Rightarrow> string option" where
  "ex_note = (\<lambda>k. if k = ''note'' then Some ''hola'' else None)"

text \<open>The status a response leaves on the transaction with the id \<open>tid\<close>, if it is stored.\<close>

definition status_after :: "response \<Rightarrow> string \<Rightarrow> string option" where
  "status_after r tid = map_option status (Transaction_find_by_id (snd r) tid)"

text \<open>
  What the workflow operations keep true of every product: the status is one of
  \<open>disponible\<close>, \<open>reservado\<close> and \<open>vendido\<close>; a reserved product has both
  \<open>reserved_by\<close> and \<open>transaction_id\<close>; an available one has neither; a sold one has
  its \<open>transaction_id\<close> and no stock.
\<close>

definition product_ok :: "product \<Rightarrow> bool" where
  "product_ok p =
     ((estado p = P_AVAILABLE \<or> estado p = P_RESERVED \<or> estado p = P_SOLD) \<and>
      (estado p = P_RESERVED \<longrightarrow> reserved_by p \<noteq> None \<and> transaction_id p \<noteq> None) \<and>
      (estado p = P_AVAILABLE \<longrightarrow> reserved_by p = None \<and> transaction_id p = None) \<and>
      (estado p = P_SOLD \<longrightarrow> transaction_id p \<noteq> None \<and> stock p = 0))"

text \<open>A listing that is created, reserved by \<open>bob\<close> and then sold.\<close>

definition ex_data :: product_data where
  "ex_data = \<lparr>d_nombre = Some ''Campera'', d_descripcion = None, d_precio = Some 1500,
     d_talla = Some ''M'', d_categoria = Some ''Abrigos'', d_imagen_url = None,
     d_username = Some ''alice''\<rparr>"

definition ex_sale :: "(product_op \<times> time) list" where
  "ex_sale = [(Create ex_pid ex_data ''alice'', 1), (Reserve ex_pid ''bob'' ex_tid, 2),
              (MarkAsSold ex_pid ex_tid, 3)]"

section \<open>Facts about the store\<close>

lemma update_one_none: "find flt ds = None \<Longrightarrow> update_one flt upd ds = (0, ds)"
  by (induction ds) (auto split: if_splits)

lemma update_one_count:
  "find flt ds = Some x \<Longrightarrow> fst (update_one flt upd ds) = (if upd x = x then 0 else 1)"
  by (induction ds) (auto split: if_splits prod.splits)

lemma find_update_one:
  assumes "\<And>t. key (upd t) = key t"
  shows "find (\<lambda>t. key t = j) (snd (update_one (\<lambda>t. key t = i) upd ds)) =
         (if j = i then map_option upd (find (\<lambda>t. key t = i) ds)
          else find (\<lambda>t. key t = j) ds)"
  using assms by (induction ds) (auto split: if_splits prod.splits)

lemma update_one_filter_cong:
  "find G ds = Some x \<Longrightarrow> F x \<Longrightarrow> (\<And>y. F y \<Longrightarrow> G y)
    \<Longrightarrow> update_one F upd ds = update_one G upd ds"
  by (induction ds) (auto split: if_splits prod.splits)

lemma Transaction_find_by_id_malformed:
  "ObjectId s = None \<Longrightarrow> Transaction_find_by_id d s = None"
  by (simp add: Transaction_find_by_id_def)

lemma Product_find_by_id_malformed:
  "ObjectId s = None \<Longrightarrow> Product_find_by_id d s = None"
  by (simp add: Product_find_by_id_def)

lemma ex_find_product: "Product_find_by_id (ex_db t) ex_pid = Some ex_product"
  by (simp add: Product_find_by_id_def ObjectId_def ex_pid_def is_hex_def hex_lower_def is_space_def
      ex_db_def find_one_def ex_product_def)

section \<open>Reserving a product that cannot be reserved\<close>

text \<open>
  Claim C5. When the product is absent, or its status is not \<open>disponible\<close>, or the buyer
  is its owner, \<open>Product.reserve\<close> returns \<open>False\<close> and the store is exactly what it
  was. The route \<open>create_reservation\<close> answers 400 for a product that is not available
  and for a self-purchase, and 404 for an absent product, again without touching the
  store.
\<close>

theorem reserve_unavailable_fails:
  assumes "Product_find_by_id d pid = None \<or>
           (\<exists>p. Product_find_by_id d pid = Some p \<and>
                (estado p \<noteq> P_AVAILABLE \<or> user_id p = buyer))"
  shows "Product_reserve d pid buyer tid now = Inr (False, d) \<and>
         create_reservation uf d new_oid rnd buyer (Some pid) now
           = Some (if Product_find_by_id d pid = None \<and> pid \<noteq> [] then 404 else 400, d)"
  using assms
  by (auto simp: Product_reserve_def create_reservation_def P_AVAILABLE_def)

theorem reserve_unavailable_fails_witness:
  "Product_find_by_id (ex_db ex_transaction) ex_pid = Some ex_product \<and>
   estado ex_product \<noteq> P_AVAILABLE \<and>
   Product_reserve (ex_db ex_transaction) ex_pid ''carol'' ex_tid 9
     = Inr (False, ex_db ex_transaction) \<and>
   create_reservation ex_user_find_by_id (ex_db ex_transaction) ex_tid zero_rnd ''carol''
     (Some ex_pid) 9 = Some (400, ex_db ex_transaction)"
proof -
  have f: "Product_find_by_id (ex_db ex_transaction) ex_pid = Some ex_product"
    by (rule ex_find_product)
  have e: "estado ex_product \<noteq> P_AVAILABLE"
    by (simp add: ex_product_def P_RESERVED_def P_AVAILABLE_def)
  from f e have h: "Product_find_by_id (ex_db ex_transaction) ex_pid = None \<or>
      (\<exists>p. Product_find_by_id (ex_db ex_transaction) ex_pid = Some p \<and>
           (estado p \<noteq> P_AVAILABLE \<or> user_id p = ''carol''))"
    by simp
  show ?thesis
    using f e reserve_unavailable_fails [OF h, of ex_tid 9 ex_user_find_by_id ex_tid zero_rnd]
    by simp
qed

section \<open>Malformed ids\<close>

text \<open>
  Claim C10, as the code has it. For a string that \<open>ObjectId\<close> rejects, both
  \<open>find_by_id\<close> return \<open>None\<close> instead of raising. The routes \<open>get_transaction\<close>,
  \<open>buyer_confirm_payment\<close> and \<open>complete_transaction\<close> then answer 404 and leave the
  store alone. \<open>seller_confirm\<close> and \<open>cancel_transaction\<close> read the request body
  before the lookup: they answer 404 when the body is a JSON object and 500 when it is
  not, in both cases without touching the store. \<open>create_reservation\<close> answers 404 for
  a malformed product id that is not empty and 400 for the empty one.
\<close>

theorem malformed_id_not_found:
  assumes "ObjectId s = None"
  shows "Transaction_find_by_id d s = None \<and> Product_find_by_id d s = None \<and>
         get_transaction uf d caller s = (404, d) \<and>
         seller_confirm d caller s body now = (if body = None then 500 else 404, d) \<and>
         buyer_confirm_payment d caller s now = (404, d) \<and>
         complete_transaction d caller s now = (404, d) \<and>
         cancel_transaction d caller s body' now = (if body' = None then 500 else 404, d) \<and>
         create_reservation uf d new_oid rnd caller (Some s) now
           = Some (if s = [] then 400 else 404, d)"
  using assms
  by (simp add: Transaction_find_by_id_malformed Product_find_by_id_malformed
      get_transaction_def seller_confirm_def buyer_confirm_payment_def
      complete_transaction_def cancel_transaction_def create_reservation_def
      split: option.splits)

theorem malformed_id_not_found_witness:
  "ObjectId ''not-an-id'' = None \<and>
   Transaction_find_by_id (ex_db ex_transaction) ''not-an-id'' = None \<and>
   cancel_transaction (ex_db ex_transaction) ''bob'' ''not-an-id'' (Some ex_reason) 9
     = (404, ex_db ex_transaction) \<and>
   seller_confirm (ex_db ex_transaction) ''bob'' ''not-an-id'' None 9
     = (500, ex_db ex_transaction)"
proof -
  have h: "ObjectId ''not-an-id'' = None" by (simp add: ObjectId_def)
  show ?thesis
    using h malformed_id_not_found [OF h, of "ex_db ex_transaction" ex_user_find_by_id
        "''bob''" None 9 "Some ex_reason" ex_tid zero_rnd]
    by simp
qed

text \<open>
  The claim as stated fails at the empty string: it is not an object id, and
  \<open>create_reservation\<close> answers 400 (its guard \<open>if not product_id\<close>), not 404.
\<close>

theorem empty_product_id_is_400:
  "ObjectId [] = None \<and>
   create_reservation ex_user_find_by_id (ex_db ex_transaction) ex_tid zero_rnd ''carol''
     (Some []) 9 = Some (400, ex_db ex_transaction)"
  by (simp add: ObjectId_def create_reservation_def)

lemmas model_defs =
  Transaction_find_by_id_def Product_find_by_id_def find_one_def update_by_id_def
  Transaction_update_status_def Transaction_seller_confirm_def
  Transaction_buyer_confirm_payment_def Transaction_complete_transaction_def
  Transaction_cancel_transaction_def Transaction_add_note_def
  Product_reserve_def Product_unreserve_def Product_mark_as_sold_def

lemmas status_defs =
  PENDING_def CONFIRMED_def PAYMENT_CONFIRMED_def COMPLETED_def CANCELLED_def
  P_AVAILABLE_def P_RESERVED_def P_SOLD_def

lemmas ex_defs =
  ex_db_def ex_transaction_def ex_product_def ex_confirmed_def ex_completed_def
  ex_taken_def

lemma ObjectId_ex [simp]:
  "ObjectId ex_tid = Some ex_tid" "ObjectId ex_pid = Some ex_pid" "ObjectId ex_new = Some ex_new"
  "ex_tid \<noteq> ex_pid" "ex_tid \<noteq> ex_new" "ex_pid \<noteq> ex_new"
  "ex_pid \<noteq> ex_tid" "ex_new \<noteq> ex_tid" "ex_new \<noteq> ex_pid"
  by (simp_all add: ObjectId_def ex_tid_def ex_pid_def ex_new_def is_hex_def hex_lower_def
      is_space_def)

section \<open>Facts about the transaction model\<close>

lemma timeline_changes: "timeline (upd t) = timeline t @ [e] \<Longrightarrow> upd t \<noteq> t"
  by (metis append_self_conv not_Cons_self2)

lemma update_by_id_found:
  assumes i: "ObjectId tid = Some i"
    and f: "find_one (\<lambda>t. t_oid t = i) (transactions d) = Some t"
    and k: "\<And>x. t_oid (upd x) = t_oid x"
    and c: "upd t \<noteq> t"
  shows "\<exists>d'. update_by_id d tid upd = Inr (True, d') \<and> products d' = products d \<and>
           (\<forall>j. find_one (\<lambda>t. t_oid t = j) (transactions d') =
                 (if j = i then Some (upd t) else find_one (\<lambda>t. t_oid t = j) (transactions d)))"
proof -
  let ?r = "update_one (\<lambda>t. t_oid t = i) upd (transactions d)"
  from f have f': "find (\<lambda>t. t_oid t = i) (transactions d) = Some t"
    by (simp add: find_one_def)
  have n: "fst ?r = 1" using update_one_count [OF f', of upd] c by simp
  have l: "\<And>j. find (\<lambda>t. t_oid t = j) (snd ?r) =
      (if j = i then Some (upd t) else find (\<lambda>t. t_oid t = j) (transactions d))"
    using find_update_one [of t_oid upd _ i "transactions d", OF k] f' by simp
  have "update_by_id d tid upd = Inr (True, d\<lparr>transactions := snd ?r\<rparr>)"
    using i n by (cases ?r) (simp add: update_by_id_def)
  then show ?thesis using l by (simp add: find_one_def)
qed

lemma apply_op_cases:
  obtains (fail) "apply_op d op now = Inr (False, d)"
  | (ok) i t upd e where "ObjectId (target op) = Some i"
      "find_one (\<lambda>t. t_oid t = i) (transactions d) = Some t"
      "apply_op d op now = update_by_id d (target op) upd"
      "\<And>x. t_oid (upd x) = t_oid x"
      "\<And>x. timeline (upd x) = timeline x @ [e]"
      "\<And>x. completed_at (upd x) = (if is_completion i op then Some now else completed_at x)"
proof (cases op)
  case (UpdateStatus tid st msg uid)
  show ?thesis
  proof (cases "apply_op d op now = Inr (False, d)")
    case True then show ?thesis by (rule fail)
  next
    case False
    let ?e = "\<lparr>ev_status = st, timestamp = now, message = msg, by_user_id = Some uid\<rparr>"
    let ?upd = "\<lambda>t. t\<lparr>status := st, updated_at := now,
                completed_at := (if st = COMPLETED then Some now else completed_at t),
                timeline := timeline t @ [?e]\<rparr>"
    from False UpdateStatus obtain i t where
      "ObjectId tid = Some i" "find_one (\<lambda>t. t_oid t = i) (transactions d) = Some t"
      "apply_op d op now = update_by_id d tid ?upd"
      by (auto simp: Transaction_update_status_def Transaction_find_by_id_def
          split: option.splits if_splits)
    with UpdateStatus show ?thesis
      by (intro ok [of i t ?upd ?e]) simp_all
  qed
next
  case (SellerConfirm tid uid pm)
  show ?thesis
  proof (cases "apply_op d op now = Inr (False, d)")
    case True then show ?thesis by (rule fail)
  next
    case False
    let ?e = "\<lparr>ev_status = CONFIRMED, timestamp = now,
                 message = ''Vendedor confirm'' @ [CHR 0xF3] @ '' la venta'',
                 by_user_id = Some uid\<rparr>"
    let ?upd = "\<lambda>t. t\<lparr>status := CONFIRMED, seller_confirmed := True, payment_method := pm,
                updated_at := now, timeline := timeline t @ [?e]\<rparr>"
    from False SellerConfirm obtain i t where
      "ObjectId tid = Some i" "find_one (\<lambda>t. t_oid t = i) (transactions d) = Some t"
      "apply_op d op now = update_by_id d tid ?upd"
      by (auto simp: Transaction_seller_confirm_def Transaction_find_by_id_def
          split: option.splits if_splits)
    with SellerConfirm show ?thesis
      by (intro ok [of i t ?upd ?e]) simp_all
  qed
next
  case (BuyerConfirmPayment tid uid)
  show ?thesis
  proof (cases "apply_op d op now = Inr (False, d)")
    case True then show ?thesis by (rule fail)
  next
    case False
    let ?e = "\<lparr>ev_status = PAYMENT_CONFIRMED, timestamp = now,
                 message = ''Comprador confirm'' @ [CHR 0xF3] @ '' el pago'',
                 by_user_id = Some uid\<rparr>"
    let ?upd = "\<lambda>t. t\<lparr>status := PAYMENT_CONFIRMED, buyer_paid := True, updated_at := now,
                timeline := timeline t @ [?e]\<rparr>"
    from False BuyerConfirmPayment obtain i t where
      "ObjectId tid = Some i" "find_one (\<lambda>t. t_oid t = i) (transactions d) = Some t"
      "apply_op d op now = update_by_id d tid ?upd"
      by (auto simp: Transaction_buyer_confirm_payment_def Transaction_find_by_id_def
          split: option.splits if_splits)
    with BuyerConfirmPayment show ?thesis
      by (intro ok [of i t ?upd ?e]) simp_all
  qed
next
  case (AddNote tid uid nt)
  show ?thesis
  proof (cases "apply_op d op now = Inr (False, d)")
    case True then show ?thesis by (rule fail)
  next
    case False
    with AddNote obtain i t where it:
      "ObjectId tid = Some i" "find_one (\<lambda>t. t_oid t = i) (transactions d) = Some t"
      "apply_op d op now = update_by_id d tid
         (\<lambda>x. x\<lparr>updated_at := now,
                timeline := timeline x @ [\<lparr>ev_status = status t, timestamp = now,
                            message = ''Nota agregada: '' @ nt,
                            by_user_id = Some uid\<rparr>]\<rparr>)"
      by (auto simp: Transaction_add_note_def Transaction_find_by_id_def
          split: option.splits if_splits)
    let ?e = "\<lparr>ev_status = status t, timestamp = now,
               message = ''Nota agregada: '' @ nt, by_user_id = Some uid\<rparr>"
    from it AddNote show ?thesis
      by (intro ok [of i t "\<lambda>x. x\<lparr>updated_at := now, timeline := timeline x @ [?e]\<rparr>" ?e])
         simp_all
  qed
qed

lemma step_lookup:
  assumes f: "find_one (\<lambda>t. t_oid t = j) (transactions d) = Some t"
  shows "\<exists>t'. find_one (\<lambda>t. t_oid t = j) (transactions (step d (op, now))) = Some t' \<and>
          (if succeeds d (op, now) \<and> ObjectId (target op) = Some j
           then (\<exists>e. timeline t' = timeline t @ [e]) \<and>
                completed_at t' = (if is_completion j op then Some now else completed_at t)
           else t' = t)"
proof -
  show ?thesis
  proof (cases rule: apply_op_cases [where d = d and op = op and now = now])
    case fail
    then show ?thesis using f by (simp add: step_def succeeds_def)
  next
    case (ok i t0 upd e)
    have "upd t0 \<noteq> t0" using ok(5) [of t0] by (rule timeline_changes)
    from update_by_id_found [OF ok(1) ok(2) ok(4) this]
    obtain d' where d': "update_by_id d (target op) upd = Inr (True, d')"
      "\<And>k. find_one (\<lambda>t. t_oid t = k) (transactions d') =
        (if k = i then Some (upd t0) else find_one (\<lambda>t. t_oid t = k) (transactions d))"
      by blast
    have s: "step d (op, now) = d'" "succeeds d (op, now)"
      using ok(3) d'(1) by (simp_all add: step_def succeeds_def)
    show ?thesis
    proof (cases "j = i")
      case True
      with f ok(2) have "t0 = t" by simp
      with True s d'(2) [of j] ok(1) ok(5) [of t] ok(6) [of t] show ?thesis by auto
    next
      case False
      with s d'(2) [of j] ok(1) f show ?thesis by auto
    qed
  qed
qed

lemma generate_well_formed: "well_formed_code (generate_transaction_code rnd i)"
proof -
  have "\<And>n. chars ! (n mod length chars) \<in> set chars"
    by (rule nth_mem) (simp add: chars_def)
  then show ?thesis
    by (simp add: well_formed_code_def generate_transaction_code_def list_all_iff)
qed

lemma loop_sound:
  assumes "unique_code_loop rnd ts i c = Some c'"
  shows "\<not> code_taken ts c' \<and>
         (c' = c \<or> (\<exists>k. c' = generate_transaction_code rnd (i + 6 * k)))"
proof (rule unique_code_loop.raw_induct
    [where P = "\<lambda>rnd ts i c c'. \<not> code_taken ts c' \<and>
         (c' = c \<or> (\<exists>k. c' = generate_transaction_code rnd (i + 6 * k)))", OF _ assms])
  fix lp :: "(nat \<Rightarrow> nat) \<Rightarrow> transaction list \<Rightarrow> nat \<Rightarrow> string \<Rightarrow> string option"
  fix rnd ts i c c'
  assume IH: "\<And>rnd ts i c c'. lp rnd ts i c = Some c' \<Longrightarrow> \<not> code_taken ts c' \<and>
         (c' = c \<or> (\<exists>k. c' = generate_transaction_code rnd (i + 6 * k)))"
    and eq: "(if code_taken ts c then lp rnd ts (i + 6) (generate_transaction_code rnd i)
              else Some c) = Some c'"
  show "\<not> code_taken ts c' \<and>
         (c' = c \<or> (\<exists>k. c' = generate_transaction_code rnd (i + 6 * k)))"
  proof (cases "code_taken ts c")
    case True
    with eq have "lp rnd ts (i + 6) (generate_transaction_code rnd i) = Some c'" by simp
    from IH [OF this] have n: "\<not> code_taken ts c'"
      and g: "c' = generate_transaction_code rnd i \<or>
           (\<exists>k. c' = generate_transaction_code rnd (i + 6 + 6 * k))" by simp_all
    from g have "\<exists>k. c' = generate_transaction_code rnd (i + 6 * k)"
    proof
      assume "c' = generate_transaction_code rnd i"
      then show ?thesis by (intro exI [of _ 0]) simp
    next
      assume "\<exists>k. c' = generate_transaction_code rnd (i + 6 + 6 * k)"
      then obtain k where "c' = generate_transaction_code rnd (i + 6 + 6 * k)" ..
      then show ?thesis by (intro exI [of _ "Suc k"]) (simp add: add.assoc)
    qed
    with n show ?thesis by simp
  next
    case False
    with eq show ?thesis by simp
  qed
qed

lemma loop_total:
  "\<not> code_taken ts (generate_transaction_code rnd (i + 6 * k)) \<Longrightarrow>
     \<exists>c'. unique_code_loop rnd ts (i + 6) (generate_transaction_code rnd i) = Some c'"
proof (induction k arbitrary: i)
  case 0
  then show ?case by (subst unique_code_loop.simps) simp
next
  case (Suc k)
  have "\<not> code_taken ts (generate_transaction_code rnd ((i + 6) + 6 * k))"
    using Suc.prems by (simp add: add.assoc)
  from Suc.IH [OF this] show ?case
    by (subst unique_code_loop.simps) (auto simp: add.assoc)
qed

lemma code_taken_iff: "code_taken ts c \<longleftrightarrow> c \<in> transaction_code ` set ts"
  by (auto simp: code_taken_def find_one_def find_None_iff)

lemma create_result:
  assumes "Transaction_create d new_oid rnd pid b s p now = Some (Inr (r, d'))"
  defines "t \<equiv> last (transactions d')"
  shows "transactions d' = transactions d @ [t] \<and> products d' = products d \<and>
         t_oid t = new_oid \<and> r = (new_oid, transaction_code t) \<and> status t = PENDING \<and>
         length (timeline t) = 1 \<and> completed_at t = None \<and> buyer_id t = b \<and>
         seller_id t = s \<and> product_id t = pid \<and>
         unique_code_loop rnd (transactions d) 6 (generate_transaction_code rnd 0)
           = Some (transaction_code t) \<and>
         \<not> list_ex (\<lambda>t. t_oid t = new_oid) (transactions d)"
  using assms(1) unfolding t_def
  by (auto simp: Transaction_create_def Let_def list_ex_iff split: option.splits if_splits)

lemma ex_create:
  "\<exists>d'. Transaction_create (ex_db ex_taken) ex_new retry_rnd ex_pid ''carol'' ''alice''
           ex_product 9 = Some (Inr ((ex_new, ''TRD-BBBBBB''), d'))"
  by (simp add: Transaction_create_def unique_code_loop.simps generate_transaction_code_def
      chars_def code_taken_def find_one_def retry_rnd_def ex_defs Let_def upt_rec)

lemma ex_successes: "successes (ex_db ex_transaction) ex_tid ex_history = 3"
  by (simp add: ex_history_def succeeds_def step_def model_defs ex_defs)

lemma ex_find_confirmed:
  "find_one (\<lambda>t. t_oid t = ex_tid) (transactions (ex_db ex_confirmed)) = Some ex_confirmed"
  by (simp add: find_one_def ex_defs)

lemma ex_completion_succeeds:
  "succeeds (ex_db ex_confirmed) (UpdateStatus ex_tid COMPLETED ''ok'' ''bob'', 5)"
  by (simp add: succeeds_def model_defs ex_defs)

lemma run_ops_lookup_unchanged:
  assumes "find_one (\<lambda>t. t_oid t = i) (transactions d) = Some t"
    and "\<not> list_ex (\<lambda>c. is_completion i (fst c)) cs"
  shows "\<exists>t'. find_one (\<lambda>t. t_oid t = i) (transactions (run_ops d cs)) = Some t' \<and>
              completed_at t' = completed_at t"
  using assms
proof (induction cs arbitrary: d t)
  case Nil
  then show ?case by simp
next
  case (Cons c cs)
  obtain op now where c: "c = (op, now)" by (cases c)
  with Cons.prems(2) have n: "\<not> is_completion i op"
    and r: "\<not> list_ex (\<lambda>c. is_completion i (fst c)) cs" by simp_all
  from step_lookup [OF Cons.prems(1), of op now] n
  obtain t1 where t1: "find_one (\<lambda>t. t_oid t = i) (transactions (step d (op, now))) = Some t1"
    and e: "completed_at t1 = completed_at t"
    by (auto split: if_splits)
  from Cons.IH [OF t1 r] e c show ?case by simp
qed

section \<open>The timeline only grows\<close>

text \<open>
  Claim C6. \<open>Transaction.create\<close> stores a transaction whose timeline has exactly one
  entry and leaves the stored transactions as they were. After any history of calls of
  \<open>update_status\<close>, \<open>seller_confirm\<close>, \<open>buyer_confirm_payment\<close> and \<open>add_note\<close>, a
  transaction that was in the store is still there, its former timeline is a prefix of
  the new one, and the timeline has grown by exactly one entry for each call that
  succeeded on it.
\<close>

theorem timeline_append_only:
  "(Transaction_create d new_oid rnd pid b s p now = Some (Inr (r, d')) \<longrightarrow>
      (\<exists>t. transactions d' = transactions d @ [t] \<and> t_oid t = new_oid \<and>
           length (timeline t) = 1)) \<and>
   (find_one (\<lambda>t. t_oid t = i) (transactions d) = Some t \<longrightarrow>
      (\<exists>t'. find_one (\<lambda>t. t_oid t = i) (transactions (run_ops d cs)) = Some t' \<and>
            take (length (timeline t)) (timeline t') = timeline t \<and>
            length (timeline t') = length (timeline t) + successes d i cs))"
proof (intro conjI impI)
  assume "Transaction_create d new_oid rnd pid b s p now = Some (Inr (r, d'))"
  from create_result [OF this]
  show "\<exists>t. transactions d' = transactions d @ [t] \<and> t_oid t = new_oid \<and>
           length (timeline t) = 1" by blast
next
  assume "find_one (\<lambda>t. t_oid t = i) (transactions d) = Some t"
  then show "\<exists>t'. find_one (\<lambda>t. t_oid t = i) (transactions (run_ops d cs)) = Some t' \<and>
            take (length (timeline t)) (timeline t') = timeline t \<and>
            length (timeline t') = length (timeline t) + successes d i cs"
  proof (induction cs arbitrary: d t)
    case Nil
    then show ?case by simp
  next
    case (Cons c cs)
    obtain op now where c: "c = (op, now)" by (cases c)
    from step_lookup [OF Cons.prems, of op now]
    obtain t1 where t1: "find_one (\<lambda>t. t_oid t = i) (transactions (step d (op, now))) = Some t1"
      and e: "if succeeds d (op, now) \<and> ObjectId (target op) = Some i
              then (\<exists>e. timeline t1 = timeline t @ [e]) else t1 = t"
      by (auto split: if_splits)
    from Cons.IH [OF t1]
    obtain t' where t': "find_one (\<lambda>t. t_oid t = i)
          (transactions (run_ops (step d (op, now)) cs)) = Some t'"
        "take (length (timeline t1)) (timeline t') = timeline t1"
        "length (timeline t') = length (timeline t1) + successes (step d (op, now)) i cs"
      by blast
    show ?case
    proof (cases "succeeds d (op, now) \<and> ObjectId (target op) = Some i")
      case True
      with e obtain ev where ev: "timeline t1 = timeline t @ [ev]" by auto
      from t'(2) ev have "take (length (timeline t)) (timeline t') = timeline t"
        by (metis append_eq_conv_conj take_take min.cobounded1 length_append
            le_add1 min_absorb1 take_all_iff append_take_drop_id)
      with True t' ev c show ?thesis by simp
    next
      case False
      with e have "t1 = t" by simp
      with False t' c show ?thesis by auto
    qed
  qed
qed

theorem timeline_append_only_witness:
  "(\<exists>r d' t. Transaction_create (ex_db ex_taken) ex_new retry_rnd ex_pid ''carol'' ''alice''
               ex_product 9 = Some (Inr (r, d')) \<and>
            transactions d' = transactions (ex_db ex_taken) @ [t] \<and> t_oid t = ex_new \<and>
            length (timeline t) = 1) \<and>
   find_one (\<lambda>t. t_oid t = ex_tid) (transactions (ex_db ex_transaction)) = Some ex_transaction \<and>
   (\<exists>t'. find_one (\<lambda>t. t_oid t = ex_tid)
            (transactions (run_ops (ex_db ex_transaction) ex_history)) = Some t' \<and>
         take 1 (timeline t') = timeline ex_transaction \<and>
         length (timeline t') = 1 + 3)"
proof -
  from ex_create obtain d1 where c: "Transaction_create (ex_db ex_taken) ex_new retry_rnd ex_pid
      ''carol'' ''alice'' ex_product 9 = Some (Inr ((ex_new, ''TRD-BBBBBB''), d1))" ..
  have f: "find_one (\<lambda>t. t_oid t = ex_tid) (transactions (ex_db ex_transaction))
             = Some ex_transaction"
    by (simp add: find_one_def ex_db_def ex_transaction_def)
  have l: "length (timeline ex_transaction) = 1" by (simp add: ex_transaction_def)
  have t: "transactions (ex_db ex_taken) = [ex_taken]" by (simp add: ex_db_def)
  from timeline_append_only [of "ex_db ex_taken" ex_new retry_rnd ex_pid "''carol''"
      "''alice''" ex_product 9 "(ex_new, ''TRD-BBBBBB'')" d1 ex_tid] c
  have a: "\<exists>t. transactions d1 = transactions (ex_db ex_taken) @ [t] \<and> t_oid t = ex_new \<and>
            length (timeline t) = 1" by blast
  from timeline_append_only [of "ex_db ex_transaction" ex_new retry_rnd ex_pid "''carol''"
      "''alice''" ex_product 9 "(ex_new, ''TRD-BBBBBB'')" d1 ex_tid ex_transaction ex_history] f
  have b: "\<exists>t'. find_one (\<lambda>t. t_oid t = ex_tid)
            (transactions (run_ops (ex_db ex_transaction) ex_history)) = Some t' \<and>
         take 1 (timeline t') = timeline ex_transaction \<and>
         length (timeline t') = 1 + 3"
    by (simp add: l ex_successes)
  from a b c f show ?thesis by blast
qed

section \<open>The completion stamp\<close>

text \<open>
  Claim C7, as the code has it. \<open>completed_at\<close> is absent in a transaction that
  \<open>Transaction.create\<close> stores, and no call other than an \<open>update_status\<close> to
  \<open>completada\<close> changes it. Every such call that succeeds stamps it with the current
  time, whether or not the transaction had been completed before.
\<close>

theorem completed_at_written_by_completion_only:
  "(Transaction_create d0 new_oid rnd pid b s p now0 = Some (Inr (r, d1)) \<longrightarrow>
      (\<exists>t. transactions d1 = transactions d0 @ [t] \<and> completed_at t = None)) \<and>
   (find_one (\<lambda>t. t_oid t = i) (transactions d) = Some t \<longrightarrow>
      (\<exists>t'. find_one (\<lambda>t. t_oid t = i) (transactions (step d (op, now))) = Some t' \<and>
            completed_at t' = (if is_completion i op \<and> succeeds d (op, now) then Some now
                               else completed_at t)) \<and>
      (\<not> list_ex (\<lambda>c. is_completion i (fst c)) cs \<longrightarrow>
         (\<exists>t'. find_one (\<lambda>t. t_oid t = i) (transactions (run_ops d cs)) = Some t' \<and>
               completed_at t' = completed_at t)))"
proof (intro conjI impI)
  assume "Transaction_create d0 new_oid rnd pid b s p now0 = Some (Inr (r, d1))"
  from create_result [OF this]
  show "\<exists>t. transactions d1 = transactions d0 @ [t] \<and> completed_at t = None" by blast
next
  assume f: "find_one (\<lambda>t. t_oid t = i) (transactions d) = Some t"
  from step_lookup [OF f, of op now]
  obtain t' where t': "find_one (\<lambda>t. t_oid t = i) (transactions (step d (op, now))) = Some t'"
    and e: "if succeeds d (op, now) \<and> ObjectId (target op) = Some i
            then completed_at t' = (if is_completion i op then Some now else completed_at t)
            else t' = t"
    by (auto split: if_splits)
  have "is_completion i op \<Longrightarrow> ObjectId (target op) = Some i" by (cases op) simp_all
  with e have "completed_at t' = (if is_completion i op \<and> succeeds d (op, now) then Some now
                               else completed_at t)"
    by (auto split: if_splits)
  with t' show "\<exists>t'. find_one (\<lambda>t. t_oid t = i) (transactions (step d (op, now))) = Some t' \<and>
            completed_at t' = (if is_completion i op \<and> succeeds d (op, now) then Some now
                               else completed_at t)" by blast
next
  assume "find_one (\<lambda>t. t_oid t = i) (transactions d) = Some t"
    and "\<not> list_ex (\<lambda>c. is_completion i (fst c)) cs"
  then show "\<exists>t'. find_one (\<lambda>t. t_oid t = i) (transactions (run_ops d cs)) = Some t' \<and>
               completed_at t' = completed_at t"
    by (rule run_ops_lookup_unchanged)
qed

theorem completed_at_written_by_completion_only_witness:
  "completed_at ex_confirmed = None \<and>
   (\<exists>r d1 t. Transaction_create (ex_db ex_taken) ex_new retry_rnd ex_pid ''carol'' ''alice''
               ex_product 9 = Some (Inr (r, d1)) \<and>
            transactions d1 = transactions (ex_db ex_taken) @ [t] \<and> completed_at t = None) \<and>
   (\<exists>t'. find_one (\<lambda>t. t_oid t = ex_tid)
            (transactions (step (ex_db ex_confirmed)
               (UpdateStatus ex_tid COMPLETED ''ok'' ''bob'', 5))) = Some t' \<and>
         completed_at t' = Some 5) \<and>
   (\<exists>t'. find_one (\<lambda>t. t_oid t = ex_tid)
            (transactions (run_ops (ex_db ex_confirmed) ex_notes)) = Some t' \<and>
         completed_at t' = None)"
proof -
  from ex_create obtain d1 where c: "Transaction_create (ex_db ex_taken) ex_new retry_rnd ex_pid
      ''carol'' ''alice'' ex_product 9 = Some (Inr ((ex_new, ''TRD-BBBBBB''), d1))" ..
  have n: "completed_at ex_confirmed = None" by (simp add: ex_defs)
  have l: "\<not> list_ex (\<lambda>c. is_completion ex_tid (fst c)) ex_notes"
    by (simp add: ex_notes_def status_defs)
  have i: "is_completion ex_tid (UpdateStatus ex_tid COMPLETED ''ok'' ''bob'')" by simp
  from completed_at_written_by_completion_only [of "ex_db ex_taken" ex_new retry_rnd ex_pid
      "''carol''" "''alice''" ex_product 9 "(ex_new, ''TRD-BBBBBB'')" d1 ex_tid
      "ex_db ex_confirmed" ex_confirmed "UpdateStatus ex_tid COMPLETED ''ok'' ''bob''" 5 ex_notes]
    c ex_find_confirmed ex_completion_succeeds l i n
  show ?thesis by (simp del: is_completion.simps)
qed

text \<open>
  The claim as stated fails on a transaction completed at time 5: completing it again
  at time 9 succeeds and overwrites the stamp.
\<close>

theorem completed_at_rewritten:
  "Transaction_find_by_id (ex_db ex_completed) ex_tid = Some ex_completed \<and>
   status ex_completed = COMPLETED \<and> completed_at ex_completed = Some 5 \<and>
   fst (complete_transaction (ex_db ex_completed) ''alice'' ex_tid 9) = 200 \<and>
   map completed_at (transactions (snd (complete_transaction (ex_db ex_completed) ''alice''
      ex_tid 9))) = [Some 9]"
  by (simp add: complete_transaction_def model_defs ex_defs)

section \<open>Transaction codes\<close>

text \<open>
  Claim C8. \<open>Transaction.create\<close> returns exactly when one of the codes it draws is
  free. The code it stores is \<open>TRD-\<close> followed by six characters of the alphabet, it
  is the code of no transaction stored before, and the codes of the store stay pairwise
  distinct.
\<close>

theorem transaction_code_unique:
  "(Transaction_create d new_oid rnd pid b s p now \<noteq> None \<longleftrightarrow>
      (\<exists>k. \<not> code_taken (transactions d) (generate_transaction_code rnd (6 * k)))) \<and>
   (Transaction_create d new_oid rnd pid b s p now = Some (Inr ((tid, code), d')) \<longrightarrow>
      well_formed_code code \<and> code \<notin> transaction_code ` set (transactions d) \<and>
      map transaction_code (transactions d') = map transaction_code (transactions d) @ [code] \<and>
      (distinct (map transaction_code (transactions d))
         \<longrightarrow> distinct (map transaction_code (transactions d'))))"
proof (intro conjI impI)
  let ?ts = "transactions d"
  let ?loop = "unique_code_loop rnd ?ts 6 (generate_transaction_code rnd 0)"
  have "?loop \<noteq> None \<longleftrightarrow>
        (\<exists>k. \<not> code_taken ?ts (generate_transaction_code rnd (6 * k)))"
  proof
    assume "?loop \<noteq> None"
    then obtain c where "?loop = Some c" by auto
    from loop_sound [OF this]
    have "\<not> code_taken ?ts c" and
      "c = generate_transaction_code rnd 0 \<or> (\<exists>k. c = generate_transaction_code rnd (6 + 6 * k))"
      by simp_all
    then show "\<exists>k. \<not> code_taken ?ts (generate_transaction_code rnd (6 * k))"
      by (metis mult_0_right mult_Suc_right)
  next
    assume "\<exists>k. \<not> code_taken ?ts (generate_transaction_code rnd (6 * k))"
    then obtain k where "\<not> code_taken ?ts (generate_transaction_code rnd (0 + 6 * k))" by auto
    from loop_total [OF this] show "?loop \<noteq> None" by auto
  qed
  moreover have "Transaction_create d new_oid rnd pid b s p now \<noteq> None \<longleftrightarrow> ?loop \<noteq> None"
    by (auto simp: Transaction_create_def Let_def split: option.splits)
  ultimately show "Transaction_create d new_oid rnd pid b s p now \<noteq> None \<longleftrightarrow>
      (\<exists>k. \<not> code_taken (transactions d) (generate_transaction_code rnd (6 * k)))" by simp
next
  assume a: "Transaction_create d new_oid rnd pid b s p now = Some (Inr ((tid, code), d'))"
  from create_result [OF a]
  have d': "transactions d' = transactions d @ [last (transactions d')]"
    and c: "code = transaction_code (last (transactions d'))"
    and l: "unique_code_loop rnd (transactions d) 6 (generate_transaction_code rnd 0) = Some code"
    by simp_all
  from loop_sound [OF l] have n: "\<not> code_taken (transactions d) code"
    and g: "code = generate_transaction_code rnd 0 \<or>
            (\<exists>k. code = generate_transaction_code rnd (6 + 6 * k))" by simp_all
  from g show "well_formed_code code" by (auto simp: generate_well_formed)
  from n show f: "code \<notin> transaction_code ` set (transactions d)" by (simp add: code_taken_iff)
  from d' c show m: "map transaction_code (transactions d')
      = map transaction_code (transactions d) @ [code]"
    by (metis list.simps(8,9) map_append)
  assume "distinct (map transaction_code (transactions d))"
  with m f show "distinct (map transaction_code (transactions d'))" by simp
qed

theorem transaction_code_unique_witness:
  "\<not> code_taken (transactions (ex_db ex_taken)) (generate_transaction_code retry_rnd (6 * 1)) \<and>
   (\<exists>d'. Transaction_create (ex_db ex_taken) ex_new retry_rnd ex_pid ''carol'' ''alice''
           ex_product 9 = Some (Inr ((ex_new, ''TRD-BBBBBB''), d')) \<and>
         well_formed_code ''TRD-BBBBBB'' \<and>
         map transaction_code (transactions d') = [''TRD-AAAAAA'', ''TRD-BBBBBB''] \<and>
         distinct (map transaction_code (transactions d')))"
proof -
  from ex_create obtain d' where c: "Transaction_create (ex_db ex_taken) ex_new retry_rnd ex_pid
      ''carol'' ''alice'' ex_product 9 = Some (Inr ((ex_new, ''TRD-BBBBBB''), d'))" ..
  have m: "map transaction_code (transactions (ex_db ex_taken)) = [''TRD-AAAAAA'']"
    by (simp add: ex_defs)
  have n: "\<not> code_taken (transactions (ex_db ex_taken))
             (generate_transaction_code retry_rnd (6 * 1))"
    by (simp add: code_taken_def find_one_def generate_transaction_code_def chars_def
        retry_rnd_def ex_defs upt_rec)
  from transaction_code_unique [of "ex_db ex_taken" ex_new retry_rnd ex_pid "''carol''"
      "''alice''" ex_product 9 ex_new "''TRD-BBBBBB''" d'] c m n
  show ?thesis by auto
qed

section \<open>Facts about the routes\<close>

lemma Transaction_find_by_id_cong:
  "transactions d' = transactions d \<Longrightarrow> Transaction_find_by_id d' s = Transaction_find_by_id d s"
  by (cases "ObjectId s") (simp_all add: Transaction_find_by_id_def)

lemma Product_find_by_id_cong:
  "products d' = products d \<Longrightarrow> Product_find_by_id d' s = Product_find_by_id d s"
  by (cases "ObjectId s") (simp_all add: Product_find_by_id_def)

lemma update_by_id_route:
  assumes f: "Transaction_find_by_id d tid = Some t"
    and k: "\<And>x. t_oid (upd x) = t_oid x"
    and c: "timeline (upd t) = timeline t @ [e]"
  shows "\<exists>d'. update_by_id d tid upd = Inr (True, d') \<and> products d' = products d \<and>
              Transaction_find_by_id d' tid = Some (upd t)"
proof -
  from f obtain i where i: "ObjectId tid = Some i"
    and fi: "find_one (\<lambda>t. t_oid t = i) (transactions d) = Some t"
    by (auto simp: Transaction_find_by_id_def split: option.splits)
  from c have "upd t \<noteq> t" by (rule timeline_changes)
  from update_by_id_found [OF i fi k this] i show ?thesis
    by (auto simp: Transaction_find_by_id_def)
qed

lemma product_update_route:
  assumes f: "Product_find_by_id d pid = Some p" and k: "\<And>x. p_oid (upd x) = p_oid x"
    and i: "ObjectId pid = Some i"
  shows "Product_find_by_id (d\<lparr>products := snd (update_one (\<lambda>q. p_oid q = i) upd (products d))\<rparr>)
           pid = Some (upd p)"
  using f i find_update_one [of p_oid upd i i "products d", OF k]
  by (simp add: Product_find_by_id_def find_one_def)

lemma mark_as_sold_found:
  assumes "Product_find_by_id d pid = Some p"
  shows "\<exists>b d'. Product_mark_as_sold d pid tid now = Inr (b, d') \<and>
           transactions d' = transactions d \<and>
           Product_find_by_id d' pid = Some (p\<lparr>estado := P_SOLD, stock := 0,
               transaction_id := Some tid, p_updated_at := now\<rparr>)"
proof -
  from assms obtain i where i: "ObjectId pid = Some i"
    by (auto simp: Product_find_by_id_def split: option.splits)
  let ?upd = "\<lambda>q. q\<lparr>estado := P_SOLD, stock := 0, transaction_id := Some tid, p_updated_at := now\<rparr>"
  from product_update_route [OF assms _ i, of ?upd] i show ?thesis
    by (cases "update_one (\<lambda>q. p_oid q = i) ?upd (products d)")
       (simp add: Product_mark_as_sold_def)
qed


lemma product_ops_keep_transactions:
  "Product_mark_as_sold d pid tid now = Inr (b, d') \<Longrightarrow> transactions d' = transactions d"
  "Product_unreserve d pid now = Inr (b, d') \<Longrightarrow> transactions d' = transactions d"
  by (auto simp: Product_mark_as_sold_def Product_unreserve_def split: option.splits prod.splits)

lemma update_status_route:
  assumes f: "Transaction_find_by_id d tid = Some t"
    and u: "uid = buyer_id t \<or> uid = seller_id t"
  shows "\<exists>d' t'. Transaction_update_status d tid st msg uid now = Inr (True, d') \<and>
           products d' = products d \<and> Transaction_find_by_id d' tid = Some t' \<and>
           status t' = st \<and> product_id t' = product_id t \<and>
           completed_at t' = (if st = COMPLETED then Some now else completed_at t)"
proof -
  let ?e = "\<lparr>ev_status = st, timestamp = now, message = msg, by_user_id = Some uid\<rparr>"
  let ?upd = "\<lambda>t. t\<lparr>status := st, updated_at := now,
                completed_at := (if st = COMPLETED then Some now else completed_at t),
                timeline := timeline t @ [?e]\<rparr>"
  from update_by_id_route [OF f, of ?upd ?e]
  obtain d' where "update_by_id d tid ?upd = Inr (True, d')" "products d' = products d"
    "Transaction_find_by_id d' tid = Some (?upd t)" by auto
  with f u show ?thesis
    by (auto simp: Transaction_update_status_def)
qed

lemma seller_confirm_route:
  assumes f: "Transaction_find_by_id d tid = Some t"
  shows "\<exists>d' t'. Transaction_seller_confirm d tid (seller_id t) pm now = Inr (True, d') \<and>
           products d' = products d \<and> Transaction_find_by_id d' tid = Some t' \<and>
           status t' = CONFIRMED \<and> seller_confirmed t'"
proof -
  let ?e = "\<lparr>ev_status = CONFIRMED, timestamp = now,
             message = ''Vendedor confirm'' @ [CHR 0xF3] @ '' la venta'',
             by_user_id = Some (seller_id t)\<rparr>"
  let ?upd = "\<lambda>t. t\<lparr>status := CONFIRMED, seller_confirmed := True, payment_method := pm,
                updated_at := now, timeline := timeline t @ [?e]\<rparr>"
  from update_by_id_route [OF f, of ?upd ?e]
  obtain d' where "update_by_id d tid ?upd = Inr (True, d')" "products d' = products d"
    "Transaction_find_by_id d' tid = Some (?upd t)" by auto
  with f show ?thesis
    by (auto simp: Transaction_seller_confirm_def)
qed

lemma buyer_confirm_payment_route:
  assumes f: "Transaction_find_by_id d tid = Some t"
  shows "\<exists>d' t'. Transaction_buyer_confirm_payment d tid (buyer_id t) now = Inr (True, d') \<and>
           products d' = products d \<and> Transaction_find_by_id d' tid = Some t' \<and>
           status t' = PAYMENT_CONFIRMED \<and> buyer_paid t'"
proof -
  let ?e = "\<lparr>ev_status = PAYMENT_CONFIRMED, timestamp = now,
             message = ''Comprador confirm'' @ [CHR 0xF3] @ '' el pago'',
             by_user_id = Some (buyer_id t)\<rparr>"
  let ?upd = "\<lambda>t. t\<lparr>status := PAYMENT_CONFIRMED, buyer_paid := True,
                updated_at := now, timeline := timeline t @ [?e]\<rparr>"
  from update_by_id_route [OF f, of ?upd ?e]
  obtain d' where "update_by_id d tid ?upd = Inr (True, d')" "products d' = products d"
    "Transaction_find_by_id d' tid = Some (?upd t)" by auto
  with f show ?thesis
    by (auto simp: Transaction_buyer_confirm_payment_def)
qed

lemma complete_model_route:
  assumes f: "Transaction_find_by_id d tid = Some t"
    and u: "uid = buyer_id t \<or> uid = seller_id t"
  shows "\<exists>d' t'. Transaction_complete_transaction d tid uid now = Inr (True, d') \<and>
           products d' = products d \<and> Transaction_find_by_id d' tid = Some t' \<and>
           status t' = COMPLETED \<and> product_id t' = product_id t \<and>
           completed_at t' = Some now"
  using update_status_route [OF f u, of COMPLETED
      "''Transacci'' @ [CHR 0xF3] @ ''n completada exitosamente''" now]
  by (simp add: Transaction_complete_transaction_def)

lemma cancel_model_route:
  assumes f: "Transaction_find_by_id d tid = Some t"
    and u: "uid = buyer_id t \<or> uid = seller_id t"
  shows "\<exists>d' t'. Transaction_cancel_transaction d tid uid reason now = Inr (True, d') \<and>
           products d' = products d \<and> Transaction_find_by_id d' tid = Some t' \<and>
           status t' = CANCELLED \<and> product_id t' = product_id t \<and>
           completed_at t' = (if CANCELLED = COMPLETED then Some now else completed_at t)"
  unfolding Transaction_cancel_transaction_def Let_def
  by (rule update_status_route [OF f u])

lemma ex_lookup:
  "Transaction_find_by_id (ex_db t) ex_tid = (if t_oid t = ex_tid then Some t else None)"
  by (simp add: Transaction_find_by_id_def find_one_def ex_db_def)

lemma ex_fields:
  "t_oid ex_transaction = ex_tid" "t_oid ex_confirmed = ex_tid" "t_oid ex_completed = ex_tid"
  "product_id ex_transaction = ex_pid" "product_id ex_confirmed = ex_pid"
  "product_id ex_completed = ex_pid"
  "buyer_id ex_transaction = ''bob''" "seller_id ex_transaction = ''alice''"
  "buyer_id ex_confirmed = ''bob''" "seller_id ex_confirmed = ''alice''"
  "buyer_id ex_completed = ''bob''" "seller_id ex_completed = ''alice''"
  "\<not> seller_confirmed ex_transaction" "\<not> buyer_paid ex_transaction"
  "seller_confirmed ex_confirmed" "buyer_paid ex_confirmed"
  "seller_confirmed ex_completed" "buyer_paid ex_completed"
  "status ex_transaction = PENDING" "status ex_confirmed = PAYMENT_CONFIRMED"
  "status ex_completed = COMPLETED"
  by (simp_all add: ex_transaction_def ex_confirmed_def ex_completed_def)

section \<open>Completing a transaction\<close>

text \<open>
  Claim C1, as the code has it. For a stored transaction, the route
  \<open>complete_transaction\<close> checks the caller first: a caller who is neither the buyer
  nor the seller gets 403, whatever the two flags are. For the buyer or the seller it
  answers 400 unless both \<open>seller_confirmed\<close> and \<open>buyer_paid\<close> are true, and the store
  is what it was. When both are true, the caller is a party and the linked product
  exists, it answers 200, the transaction has the status \<open>completada\<close> and
  \<open>completed_at\<close> is the current time, and the linked product has the status
  \<open>vendido\<close> and stock 0.
\<close>

theorem complete_transaction_guarded:
  assumes f: "Transaction_find_by_id d tid = Some t"
  shows "(caller \<noteq> buyer_id t \<and> caller \<noteq> seller_id t \<longrightarrow>
            complete_transaction d caller tid now = (403, d)) \<and>
         ((caller = buyer_id t \<or> caller = seller_id t) \<and>
          \<not> (seller_confirmed t \<and> buyer_paid t) \<longrightarrow>
            complete_transaction d caller tid now = (400, d)) \<and>
         ((caller = buyer_id t \<or> caller = seller_id t) \<and> seller_confirmed t \<and> buyer_paid t \<and>
          Product_find_by_id d (product_id t) = Some p \<longrightarrow>
            (\<exists>d' t' p'. complete_transaction d caller tid now = (200, d') \<and>
               Transaction_find_by_id d' tid = Some t' \<and> status t' = COMPLETED \<and>
               completed_at t' = Some now \<and>
               Product_find_by_id d' (product_id t) = Some p' \<and>
               estado p' = P_SOLD \<and> stock p' = 0))"
proof (intro conjI impI)
  assume "caller \<noteq> buyer_id t \<and> caller \<noteq> seller_id t"
  with f show "complete_transaction d caller tid now = (403, d)"
    by (simp add: complete_transaction_def)
next
  assume "(caller = buyer_id t \<or> caller = seller_id t) \<and> \<not> (seller_confirmed t \<and> buyer_paid t)"
  with f show "complete_transaction d caller tid now = (400, d)"
    by (auto simp: complete_transaction_def)
next
  assume a: "(caller = buyer_id t \<or> caller = seller_id t) \<and> seller_confirmed t \<and> buyer_paid t \<and>
          Product_find_by_id d (product_id t) = Some p"
  then have u: "caller = buyer_id t \<or> caller = seller_id t" by simp
  from complete_model_route [OF f u, of now]
  obtain d1 t' where d1:
    "Transaction_complete_transaction d tid caller now = Inr (True, d1)"
    "products d1 = products d" "Transaction_find_by_id d1 tid = Some t'"
    "status t' = COMPLETED" "completed_at t' = Some now"
    by auto
  from a Product_find_by_id_cong [OF d1(2)] have "Product_find_by_id d1 (product_id t) = Some p"
    by simp
  from mark_as_sold_found [OF this, of tid now]
  obtain b d2 where d2: "Product_mark_as_sold d1 (product_id t) tid now = Inr (b, d2)"
    "transactions d2 = transactions d1"
    "Product_find_by_id d2 (product_id t) = Some (p\<lparr>estado := P_SOLD, stock := 0,
               transaction_id := Some tid, p_updated_at := now\<rparr>)" by auto
  have "complete_transaction d caller tid now = (200, d2)"
    using f a d1(1) d2(1) by (auto simp: complete_transaction_def)
  moreover have "Transaction_find_by_id d2 tid = Some t'"
    using Transaction_find_by_id_cong [OF d2(2)] d1(3) by simp
  ultimately show "\<exists>d' t' p'. complete_transaction d caller tid now = (200, d') \<and>
               Transaction_find_by_id d' tid = Some t' \<and> status t' = COMPLETED \<and>
               completed_at t' = Some now \<and>
               Product_find_by_id d' (product_id t) = Some p' \<and>
               estado p' = P_SOLD \<and> stock p' = 0"
    using d1(4,5) d2(3)
    by (intro exI [of _ d2] exI [of _ t']
          exI [of _ "p\<lparr>estado := P_SOLD, stock := 0, transaction_id := Some tid,
                     p_updated_at := now\<rparr>"]) simp
qed

theorem complete_transaction_guarded_witness:
  "complete_transaction (ex_db ex_transaction) ''carol'' ex_tid 9 = (403, ex_db ex_transaction) \<and>
   complete_transaction (ex_db ex_transaction) ''bob'' ex_tid 9 = (400, ex_db ex_transaction) \<and>
   (\<exists>d' t' p'. complete_transaction (ex_db ex_confirmed) ''bob'' ex_tid 9 = (200, d') \<and>
      Transaction_find_by_id d' ex_tid = Some t' \<and> status t' = COMPLETED \<and>
      completed_at t' = Some 9 \<and>
      Product_find_by_id d' ex_pid = Some p' \<and> estado p' = P_SOLD \<and> stock p' = 0)"
proof -
  have a: "Transaction_find_by_id (ex_db ex_transaction) ex_tid = Some ex_transaction"
    and b: "Transaction_find_by_id (ex_db ex_confirmed) ex_tid = Some ex_confirmed"
    by (simp_all add: ex_lookup ex_fields)
  show ?thesis
    using complete_transaction_guarded [OF a, of "''carol''" 9 ex_product]
      complete_transaction_guarded [OF a, of "''bob''" 9 ex_product]
      complete_transaction_guarded [OF b, of "''bob''" 9 ex_product]
      ex_find_product [of ex_confirmed]
    by (simp add: ex_fields)
qed

text \<open>
  The claim as stated fails for a caller who is not a party: with both flags false the
  answer is 403, not 400.
\<close>

theorem complete_by_stranger_is_403:
  "\<not> (seller_confirmed ex_transaction \<and> buyer_paid ex_transaction) \<and>
   complete_transaction (ex_db ex_transaction) ''carol'' ex_tid 9 = (403, ex_db ex_transaction)"
  by (simp add: complete_transaction_def ex_lookup ex_fields)

section \<open>Cancelling a transaction\<close>



section \<open>Adding a note\<close>

text \<open>
  Claim C9 fails in the route \<open>add_note\<close>: it never looks the transaction up, and
  answers 400 whenever the model's \<open>add_note\<close> returns \<open>False\<close>. A caller who is
  neither the buyer nor the seller therefore gets 400 for a note that is not empty,
  where \<open>get_transaction\<close> and \<open>cancel_transaction\<close> answer 403 to the same caller.
\<close>

theorem add_note_by_stranger_is_400:
  "''carol'' \<noteq> buyer_id ex_transaction \<and> ''carol'' \<noteq> seller_id ex_transaction \<and>
   get_default (ex_note ''note'') [] = ''hola'' \<and>
   add_note (ex_db ex_transaction) ''carol'' ex_tid (Some ex_note) 9 = (400, ex_db ex_transaction) \<and>
   get_transaction ex_user_find_by_id (ex_db ex_transaction) ''carol'' ex_tid
     = (403, ex_db ex_transaction) \<and>
   cancel_transaction (ex_db ex_transaction) ''carol'' ex_tid (Some ex_reason) 9
     = (403, ex_db ex_transaction)"
  by (simp add: add_note_def get_transaction_def cancel_transaction_def Transaction_add_note_def
      ex_lookup ex_fields ex_note_def get_default_def)

section \<open>Terminal states\<close>

lemma seller_confirm_status:
  assumes f: "Transaction_find_by_id d tid = Some t"
  shows "status_after (seller_confirm d caller tid body now) tid =
           Some (if body \<noteq> None \<and> caller = seller_id t then CONFIRMED else status t)"
proof (cases body)
  case None
  with f show ?thesis by (simp add: seller_confirm_def status_after_def)
next
  case (Some data)
  show ?thesis
  proof (cases "caller = seller_id t")
    case False
    with f Some show ?thesis by (auto simp: seller_confirm_def status_after_def)
  next
    case True
    from seller_confirm_route [OF f, of "get_default (data ''payment_method'') []" now]
    obtain d' t' where
      "Transaction_seller_confirm d tid (seller_id t) (get_default (data ''payment_method'') []) now
         = Inr (True, d')"
      "Transaction_find_by_id d' tid = Some t'" "status t' = CONFIRMED" by auto
    with f Some True show ?thesis by (simp add: seller_confirm_def status_after_def)
  qed
qed

lemma buyer_confirm_payment_status:
  assumes f: "Transaction_find_by_id d tid = Some t"
  shows "status_after (buyer_confirm_payment d caller tid now) tid =
           Some (if caller = buyer_id t then PAYMENT_CONFIRMED else status t)"
proof (cases "caller = buyer_id t")
  case False
  with f show ?thesis by (auto simp: buyer_confirm_payment_def status_after_def)
next
  case True
  from buyer_confirm_payment_route [OF f, of now]
  obtain d' t' where
    "Transaction_buyer_confirm_payment d tid (buyer_id t) now = Inr (True, d')"
    "Transaction_find_by_id d' tid = Some t'" "status t' = PAYMENT_CONFIRMED" by auto
  with f True show ?thesis by (simp add: buyer_confirm_payment_def status_after_def)
qed

lemma complete_transaction_status:
  assumes f: "Transaction_find_by_id d tid = Some t"
  shows "status_after (complete_transaction d caller tid now) tid =
           Some (if (caller = buyer_id t \<or> caller = seller_id t) \<and>
                    seller_confirmed t \<and> buyer_paid t then COMPLETED else status t)"
proof (cases "(caller = buyer_id t \<or> caller = seller_id t) \<and> seller_confirmed t \<and> buyer_paid t")
  case False
  with f show ?thesis by (auto simp: complete_transaction_def status_after_def)
next
  case True
  then have u: "caller = buyer_id t \<or> caller = seller_id t" by simp
  from complete_model_route [OF f u, of now]
  obtain d1 t' where d1: "Transaction_complete_transaction d tid caller now = Inr (True, d1)"
    "Transaction_find_by_id d1 tid = Some t'" "status t' = COMPLETED" by auto
  show ?thesis
  proof (cases "Product_mark_as_sold d1 (product_id t) tid now")
    case (Inl e)
    with f True d1 show ?thesis by (auto simp: complete_transaction_def status_after_def)
  next
    case (Inr r)
    obtain b d2 where r: "r = (b, d2)" by (cases r)
    from Inr r have "transactions d2 = transactions d1"
      by (simp add: product_ops_keep_transactions)
    from Transaction_find_by_id_cong [OF this] d1(2)
    have "Transaction_find_by_id d2 tid = Some t'" by simp
    with f True d1 Inr r show ?thesis by (auto simp: complete_transaction_def status_after_def)
  qed
qed

lemma cancel_transaction_status:
  assumes f: "Transaction_find_by_id d tid = Some t"
  shows "status_after (cancel_transaction d caller tid body now) tid =
           Some (if body \<noteq> None \<and> (caller = buyer_id t \<or> caller = seller_id t)
                 then CANCELLED else status t)"
proof (cases body)
  case None
  with f show ?thesis by (simp add: cancel_transaction_def status_after_def)
next
  case (Some data)
  show ?thesis
  proof (cases "caller = buyer_id t \<or> caller = seller_id t")
    case False
    with f Some show ?thesis by (auto simp: cancel_transaction_def status_after_def)
  next
    case True
    from cancel_model_route [OF f True, of "get_default (data ''reason'') []" now]
    obtain d1 t' where d1:
      "Transaction_cancel_transaction d tid caller (get_default (data ''reason'') []) now
         = Inr (True, d1)"
      "Transaction_find_by_id d1 tid = Some t'" "status t' = CANCELLED" by auto
    show ?thesis
    proof (cases "Product_unreserve d1 (product_id t) now")
      case (Inl e)
      with f True Some d1 show ?thesis by (auto simp: cancel_transaction_def status_after_def)
    next
      case (Inr r)
      obtain b d2 where r: "r = (b, d2)" by (cases r)
      from Inr r have "transactions d2 = transactions d1"
        by (simp add: product_ops_keep_transactions)
      from Transaction_find_by_id_cong [OF this] d1(2)
      have "Transaction_find_by_id d2 tid = Some t'" by simp
      with f True Some d1 Inr r show ?thesis
        by (auto simp: cancel_transaction_def status_after_def)
    qed
  qed
qed

text \<open>
  Claim C4, as the code has it. No workflow route removes a stored transaction, and none
  looks at its current status: whatever the status is, terminal or not, each route
  either fails and leaves the status as it was, or overwrites it. \<open>seller_confirm\<close> by
  the seller with a JSON-object body sets \<open>confirmada\<close>; \<open>buyer_confirm_payment\<close> by the
  buyer sets \<open>pago_confirmado\<close>; \<open>complete_transaction\<close> by the buyer or the seller
  with both flags true sets \<open>completada\<close>; \<open>cancel_transaction\<close> by the buyer or the
  seller with a JSON-object body sets \<open>cancelada\<close>; every other call leaves the status
  unchanged.
\<close>

theorem status_overwritten_at_any_status:
  assumes f: "Transaction_find_by_id d tid = Some t"
  shows "status_after (seller_confirm d caller tid body now) tid =
           Some (if body \<noteq> None \<and> caller = seller_id t then CONFIRMED else status t) \<and>
         status_after (buyer_confirm_payment d caller tid now) tid =
           Some (if caller = buyer_id t then PAYMENT_CONFIRMED else status t) \<and>
         status_after (complete_transaction d caller tid now) tid =
           Some (if (caller = buyer_id t \<or> caller = seller_id t) \<and>
                    seller_confirmed t \<and> buyer_paid t then COMPLETED else status t) \<and>
         status_after (cancel_transaction d caller tid body' now) tid =
           Some (if body' \<noteq> None \<and> (caller = buyer_id t \<or> caller = seller_id t)
                 then CANCELLED else status t)"
  by (intro conjI seller_confirm_status buyer_confirm_payment_status
        complete_transaction_status cancel_transaction_status f)

theorem status_overwritten_at_any_status_witness:
  "Transaction_find_by_id (ex_db ex_completed) ex_tid = Some ex_completed \<and>
   status_after (seller_confirm (ex_db ex_completed) ''alice'' ex_tid (Some ex_payment) 9) ex_tid
     = Some CONFIRMED \<and>
   status_after (buyer_confirm_payment (ex_db ex_completed) ''alice'' ex_tid 9) ex_tid
     = Some COMPLETED \<and>
   status_after (complete_transaction (ex_db ex_completed) ''alice'' ex_tid 9) ex_tid
     = Some COMPLETED \<and>
   status_after (cancel_transaction (ex_db ex_completed) ''alice'' ex_tid (Some ex_reason) 9) ex_tid
     = Some CANCELLED"
proof -
  have a: "Transaction_find_by_id (ex_db ex_completed) ex_tid = Some ex_completed"
    by (simp add: ex_lookup ex_fields)
  show ?thesis
    using a status_overwritten_at_any_status [OF a, of "''alice''" "Some ex_payment" 9
        "Some ex_reason"]
    by (simp add: ex_fields)
qed

text \<open>
  The claim as stated fails on a completed transaction: the seller confirms it again,
  the route answers 200 and the status is \<open>confirmada\<close>.
\<close>

theorem completed_transaction_reconfirmed:
  "status ex_completed = COMPLETED \<and> CONFIRMED \<noteq> COMPLETED \<and>
   fst (seller_confirm (ex_db ex_completed) ''alice'' ex_tid (Some ex_payment) 9) = 200 \<and>
   status_after (seller_confirm (ex_db ex_completed) ''alice'' ex_tid (Some ex_payment) 9) ex_tid
     = Some CONFIRMED"
  by (simp add: status_after_def seller_confirm_def model_defs ex_defs status_defs)

section \<open>Products along the workflow\<close>

lemma update_one_list_all:
  "update_one flt upd ds = (n, ps) \<Longrightarrow> list_all P ds \<Longrightarrow> (\<And>x. P x \<Longrightarrow> flt x \<Longrightarrow> P (upd x))
    \<Longrightarrow> list_all P ps"
  by (induction ds arbitrary: n ps) (auto split: prod.splits if_splits)

lemma status_distinct:
  "P_AVAILABLE \<noteq> P_RESERVED" "P_AVAILABLE \<noteq> P_SOLD" "P_RESERVED \<noteq> P_SOLD"
  "P_RESERVED \<noteq> P_AVAILABLE" "P_SOLD \<noteq> P_AVAILABLE" "P_SOLD \<noteq> P_RESERVED"
  by (simp_all add: P_AVAILABLE_def P_RESERVED_def P_SOLD_def)

lemma create_ok:
  assumes "list_all product_ok (products d)"
    and "Product_create d new_oid data uid now = Inr (r, d')"
  shows "list_all product_ok (products d')"
proof -
  from assms(2) have "products d' = products d @ [\<lparr>p_oid = new_oid,
            nombre = d_nombre data,
            descripcion = get_default (d_descripcion data) [],
            precio = get_default (d_precio data) 0,
            talla = get_default (d_talla data) [],
            categoria = d_categoria data,
            imagen_url = get_default (d_imagen_url data) [],
            user_id = uid,
            username = get_default (d_username data) [],
            estado = P_AVAILABLE,
            stock = 1,
            reserved_by = None,
            transaction_id = None,
            views = 0,
            p_created_at = now,
            p_updated_at = now\<rparr>]"
    by (auto simp: Product_create_def Let_def split: if_splits)
  with assms(1) show ?thesis by (simp add: product_ok_def status_distinct)
qed

lemma reserve_ok:
  assumes a: "list_all product_ok (products d)"
    and r: "Product_reserve d pid buyer tid now = Inr (r, d')"
  shows "list_all product_ok (products d')"
proof (cases "d' = d")
  case True
  with a show ?thesis by simp
next
  case False
  with r obtain i n where "update_one (\<lambda>q. p_oid q = i \<and> estado q = P_AVAILABLE)
          (\<lambda>q. q\<lparr>estado := P_RESERVED, reserved_by := Some buyer,
                 transaction_id := Some tid, p_updated_at := now\<rparr>) (products d)
          = (n, products d')"
    by (auto simp: Product_reserve_def split: option.splits if_splits prod.splits)
  from this a show ?thesis
    by (rule update_one_list_all) (simp add: product_ok_def status_distinct)
qed

lemma unreserve_ok:
  assumes a: "list_all product_ok (products d)"
    and r: "Product_unreserve d pid now = Inr (r, d')"
  shows "list_all product_ok (products d')"
proof -
  from r obtain i n where "update_one (\<lambda>q. p_oid q = i)
          (\<lambda>q. q\<lparr>estado := P_AVAILABLE, reserved_by := None,
                 transaction_id := None, p_updated_at := now\<rparr>) (products d)
          = (n, products d')"
    by (auto simp: Product_unreserve_def split: option.splits prod.splits)
  from this a show ?thesis
    by (rule update_one_list_all) (simp add: product_ok_def status_distinct)
qed

lemma mark_as_sold_ok:
  assumes a: "list_all product_ok (products d)"
    and r: "Product_mark_as_sold d pid tid now = Inr (r, d')"
  shows "list_all product_ok (products d')"
proof -
  from r obtain i n where "update_one (\<lambda>q. p_oid q = i)
          (\<lambda>q. q\<lparr>estado := P_SOLD, stock := 0,
                 transaction_id := Some tid, p_updated_at := now\<rparr>) (products d)
          = (n, products d')"
    by (auto simp: Product_mark_as_sold_def split: option.splits prod.splits)
  from this a show ?thesis
    by (rule update_one_list_all) (simp add: product_ok_def status_distinct)
qed

lemma product_step_ok:
  assumes a: "list_all product_ok (products d)"
  shows "list_all product_ok (products (product_step d c))"
proof (cases c)
  case (Pair op now)
  show ?thesis
  proof (cases op)
    case (Create new_oid data uid)
    show ?thesis
    proof (cases "Product_create d new_oid data uid now")
      case (Inl e)
      with Pair Create a show ?thesis by simp
    next
      case (Inr x)
      obtain r d' where x: "x = (r, d')" by (cases x)
      from create_ok [OF a] Inr x have "list_all product_ok (products d')" by simp
      with Pair Create Inr x show ?thesis by simp
    qed
  next
    case (Reserve pid buyer tid)
    show ?thesis
    proof (cases "Product_reserve d pid buyer tid now")
      case (Inl e)
      with Pair Reserve a show ?thesis by simp
    next
      case (Inr x)
      obtain r d' where x: "x = (r, d')" by (cases x)
      from reserve_ok [OF a] Inr x have "list_all product_ok (products d')" by simp
      with Pair Reserve Inr x show ?thesis by simp
    qed
  next
    case (Unreserve pid)
    show ?thesis
    proof (cases "Product_unreserve d pid now")
      case (Inl e)
      with Pair Unreserve a show ?thesis by simp
    next
      case (Inr x)
      obtain r d' where x: "x = (r, d')" by (cases x)
      from unreserve_ok [OF a] Inr x have "list_all product_ok (products d')" by simp
      with Pair Unreserve Inr x show ?thesis by simp
    qed
  next
    case (MarkAsSold pid tid)
    show ?thesis
    proof (cases "Product_mark_as_sold d pid tid now")
      case (Inl e)
      with Pair MarkAsSold a show ?thesis by simp
    next
      case (Inr x)
      obtain r d' where x: "x = (r, d')" by (cases x)
      from mark_as_sold_ok [OF a] Inr x have "list_all product_ok (products d')" by simp
      with Pair MarkAsSold Inr x show ?thesis by simp
    qed
  qed
qed

lemma run_product_ops_ok:
  "list_all product_ok (products d) \<Longrightarrow> list_all product_ok (products (run_product_ops d cs))"
  by (induction cs arbitrary: d) (simp_all add: product_step_ok)

lemma ex_sale_result:
  "map estado (products (run_product_ops (no_products []) ex_sale)) = [P_SOLD]"
  "map reserved_by (products (run_product_ops (no_products []) ex_sale)) = [Some ''bob'']"
  "map transaction_id (products (run_product_ops (no_products []) ex_sale)) = [Some ex_tid]"
  "map stock (products (run_product_ops (no_products []) ex_sale)) = [0]"
  "map estado (products (run_product_ops (no_products []) (take 2 ex_sale))) = [P_RESERVED]"
  "map reserved_by (products (run_product_ops (no_products []) (take 2 ex_sale))) = [Some ''bob'']"
  by (simp_all add: ex_sale_def no_products_def Product_create_def Product_reserve_def
      Product_mark_as_sold_def Product_find_by_id_def find_one_def Let_def status_distinct)

text \<open>
  Claim C3, as the code has it. For every product in the store after any history of
  \<open>create\<close>, \<open>reserve\<close>, \<open>unreserve\<close> and \<open>mark_as_sold\<close> calls that starts with no
  product: if its status is \<open>reservado\<close> then both \<open>reserved_by\<close> and \<open>transaction_id\<close>
  are present; if its status is \<open>disponible\<close> then both are absent; if its status is
  \<open>vendido\<close> then \<open>transaction_id\<close> is present and the stock is 0. The converse of the
  first part does not hold: \<open>mark_as_sold\<close> keeps \<open>reserved_by\<close>.
\<close>

theorem reachable_products_consistent:
  "list_all product_ok (products (run_product_ops (no_products ts) cs))"
  by (rule run_product_ops_ok) (simp add: no_products_def)

theorem reachable_products_consistent_witness:
  "map estado (products (run_product_ops (no_products []) (take 2 ex_sale))) = [P_RESERVED] \<and>
   list_all (\<lambda>p. reserved_by p \<noteq> None \<and> transaction_id p \<noteq> None)
     (products (run_product_ops (no_products []) (take 2 ex_sale))) \<and>
   map estado (products (run_product_ops (no_products []) ex_sale)) = [P_SOLD] \<and>
   list_all (\<lambda>p. transaction_id p \<noteq> None \<and> stock p = 0)
     (products (run_product_ops (no_products []) ex_sale))"
proof -
  let ?a = "products (run_product_ops (no_products []) (take 2 ex_sale))"
  let ?b = "products (run_product_ops (no_products []) ex_sale)"
  obtain p where p: "?a = [p]" using ex_sale_result(5) by (cases ?a) auto
  obtain q where q: "?b = [q]" using ex_sale_result(1) by (cases ?b) auto
  from p ex_sale_result(5) have ep: "estado p = P_RESERVED" by simp
  from q ex_sale_result(1) have eq: "estado q = P_SOLD" by simp
  from reachable_products_consistent [of "[]" "take 2 ex_sale"] p
  have "product_ok p" by simp
  with ep have 1: "reserved_by p \<noteq> None \<and> transaction_id p \<noteq> None"
    by (simp add: product_ok_def)
  from reachable_products_consistent [of "[]" ex_sale] q
  have "product_ok q" by simp
  with eq have 2: "transaction_id q \<noteq> None \<and> stock q = 0"
    by (simp add: product_ok_def)
  from 1 2 p q ep eq show ?thesis by simp
qed

text \<open>
  The claim as stated fails on a sale: after create, reserve and \<open>mark_as_sold\<close> the
  product is \<open>vendido\<close> and both \<open>reserved_by\<close> and \<open>transaction_id\<close> are present.
\<close>

theorem sold_product_keeps_reserved_by:
  "map estado (products (run_product_ops (no_products []) ex_sale)) = [P_SOLD] \<and>
   map reserved_by (products (run_product_ops (no_products []) ex_sale)) = [Some ''bob''] \<and>
   map transaction_id (products (run_product_ops (no_products []) ex_sale)) = [Some ex_tid] \<and>
   P_SOLD \<noteq> P_RESERVED"
  by (simp add: ex_sale_def no_products_def Product_create_def Product_reserve_def
      Product_mark_as_sold_def Product_find_by_id_def find_one_def Let_def status_distinct)

end
